theory Spec2Isabelle
  imports Main
begin

section \<open>Text\<close>

text \<open>
  A JavaScript string is a sequence of UTF-16 code units; a code unit is modelled as a
  natural number. ASCII literals of the source are written with \<open>js\<close>.
\<close>

type_synonym jsstring = "nat list"

definition js :: "string \<Rightarrow> jsstring" where
  "js s = map of_char s"

text \<open>
  \<open>String.prototype.trim\<close> removes WhiteSpace and LineTerminator code units at both
  ends: TAB, LF, VT, FF, CR, SP, NBSP, the Unicode space separators, LS, PS and the BOM.
\<close>

definition isWhiteSpace :: "nat \<Rightarrow> bool" where
  "isWhiteSpace c \<longleftrightarrow>
     (9 \<le> c \<and> c \<le> 13) \<or> c = 32 \<or> c = 160 \<or> c = 5760 \<or> (8192 \<le> c \<and> c \<le> 8202) \<or>
     c = 8232 \<or> c = 8233 \<or> c = 8239 \<or> c = 8287 \<or> c = 12288 \<or> c = 65279"

definition trim :: "jsstring \<Rightarrow> jsstring" where
  "trim s = rev (dropWhile isWhiteSpace (rev (dropWhile isWhiteSpace s)))"

text \<open>
  \<open>normalize("NFKD")\<close> and \<open>toLowerCase()\<close> are built-ins of the platform whose
  tables are not part of the repository; the model takes them as parameters.
\<close>

record platform =
  normalizeNFKD :: "jsstring \<Rightarrow> jsstring"
  toLowerCase :: "jsstring \<Rightarrow> jsstring"

section \<open>slugify\<close>

definition hyphen :: nat where
  "hyphen = 45"

text \<open>The character class \<open>[a-z0-9]\<close>.\<close>

definition isAlnum :: "nat \<Rightarrow> bool" where
  "isAlnum c \<longleftrightarrow> (97 \<le> c \<and> c \<le> 122) \<or> (48 \<le> c \<and> c \<le> 57)"

text \<open>The combining diacritical marks, U+0300 to U+036F.\<close>

definition isCombiningMark :: "nat \<Rightarrow> bool" where
  "isCombiningMark c \<longleftrightarrow> 768 \<le> c \<and> c \<le> 879"

text \<open>Removing every combining diacritical mark, as the second step of \<open>slugify\<close> does.\<close>

definition stripMarks :: "jsstring \<Rightarrow> jsstring" where
  "stripMarks s = filter (\<lambda>c. \<not> isCombiningMark c) s"

text \<open>\<open>replace(/[^a-z0-9]+/g, "-")\<close>: every maximal run outside the class becomes one hyphen.\<close>

function collapseRuns :: "jsstring \<Rightarrow> jsstring" where
  "collapseRuns [] = []"
| "collapseRuns (c # cs) =
     (if isAlnum c then c # collapseRuns cs
      else hyphen # collapseRuns (dropWhile (\<lambda>x. \<not> isAlnum x) cs))"
  by pat_completeness auto
termination
  by (relation "measure length") (auto simp: length_dropWhile_le less_Suc_eq_le)

text \<open>
  \<open>replace(/(^-|-$)+/g, "")\<close>: without the multiline flag \<open>^-\<close> matches only at
  index 0 and \<open>-$\<close> only at the last index, so one hyphen is removed at the start, and
  one at the end of what remains.
\<close>

definition stripEdgeHyphens :: "jsstring \<Rightarrow> jsstring" where
  "stripEdgeHyphens s =
     (let s1 = (case s of [] \<Rightarrow> [] | c # cs \<Rightarrow> if c = hyphen then cs else s)
      in if s1 \<noteq> [] \<and> last s1 = hyphen then butlast s1 else s1)"

text \<open>
  The model and the repository each have a copy of \<open>slugify\<close>; the repository's first
  takes \<open>String(text || "")\<close>, which leaves a string as it is.
\<close>

definition slugify :: "platform \<Rightarrow> jsstring \<Rightarrow> jsstring" where
  "slugify P text =
     stripEdgeHyphens (collapseRuns (trim (toLowerCase P (stripMarks (normalizeNFKD P text)))))"

text \<open>The shape of a slug: only \<open>[a-z0-9]\<close> and hyphens, no two hyphens in a row, none at either end.\<close>

definition slugChars :: "jsstring \<Rightarrow> bool" where
  "slugChars s \<longleftrightarrow> list_all (\<lambda>c. isAlnum c \<or> c = hyphen) s"

fun singleHyphens :: "jsstring \<Rightarrow> bool" where
  "singleHyphens (c # d # cs) \<longleftrightarrow> \<not> (c = hyphen \<and> d = hyphen) \<and> singleHyphens (d # cs)"
| "singleHyphens _ \<longleftrightarrow> True"

definition noEdgeHyphen :: "jsstring \<Rightarrow> bool" where
  "noEdgeHyphen s \<longleftrightarrow> s = [] \<or> (hd s \<noteq> hyphen \<and> last s \<noteq> hyphen)"

definition slugShaped :: "jsstring \<Rightarrow> bool" where
  "slugShaped s \<longleftrightarrow> slugChars s \<and> singleHyphens s \<and> noEdgeHyphen s"

text \<open>
  What the model needs of the two built-ins: text made of \<open>[a-z0-9-]\<close> only is already
  in NFKD and already in lower case.
\<close>

definition platformOk :: "platform \<Rightarrow> bool" where
  "platformOk P \<longleftrightarrow> (\<forall>s. slugChars s \<longrightarrow> normalizeNFKD P s = s \<and> toLowerCase P s = s)"

text \<open>The two built-ins on ASCII text: NFKD changes nothing, lower-casing shifts \<open>A-Z\<close>.\<close>

definition asciiPlatform :: platform where
  "asciiPlatform =
     \<lparr> normalizeNFKD = (\<lambda>s. s),
       toLowerCase = map (\<lambda>c. if 65 \<le> c \<and> c \<le> 90 then c + 32 else c) \<rparr>"

section \<open>JavaScript values\<close>

text \<open>
  The controller works on values of type \<open>any\<close>: documents, localized bundles and
  request fields. Objects are maps from property names to values.
\<close>

datatype jsval =
  Undefined | Null | Bool bool | Num int | NaN | Str jsstring
  | Arr "jsval list" | Obj "jsstring \<Rightarrow> jsval option"

text \<open>Truthiness, as \<open>!value\<close>, \<open>||\<close> and \<open>if (value)\<close> test it.\<close>

fun truthy :: "jsval \<Rightarrow> bool" where
  "truthy Undefined = False"
| "truthy Null = False"
| "truthy (Bool b) = b"
| "truthy (Num n) = (n \<noteq> 0)"
| "truthy NaN = False"
| "truthy (Str s) = (s \<noteq> [])"
| "truthy (Arr xs) = True"
| "truthy (Obj m) = True"

text \<open>\<open>a || b\<close>\<close>

definition jsOr :: "jsval \<Rightarrow> jsval \<Rightarrow> jsval" where
  "jsOr a b = (if truthy a then a else b)"

text \<open>\<open>`${n}`\<close> for a non-negative integer: its decimal digits.\<close>

fun decimal :: "nat \<Rightarrow> jsstring" where
  "decimal n = (if n < 10 then [48 + n] else decimal (n div 10) @ [48 + n mod 10])"

declare decimal.simps [simp del]

text \<open>
  The own enumerable properties, which \<open>{...value}\<close> copies: those of an object, the
  elements of an array and the characters of a string under their indices.
\<close>

fun ownProps :: "jsval \<Rightarrow> (jsstring \<Rightarrow> jsval option)" where
  "ownProps (Obj m) = m"
| "ownProps (Arr xs) = map_of (zip (map decimal [0..<length xs]) xs)"
| "ownProps (Str s) = map_of (zip (map decimal [0..<length s]) (map (\<lambda>c. Str [c]) s))"
| "ownProps _ = Map.empty"

text \<open>
  \<open>value?.[key]\<close>: the own property under the key, otherwise \<open>undefined\<close>. What a
  value inherits, and the \<open>length\<close> of an array or a string, are functions or
  numbers; the callers below test for a string or for an object, so these count as
  \<open>undefined\<close>.
\<close>

definition getProp :: "jsval \<Rightarrow> jsstring \<Rightarrow> jsval" where
  "getProp v k = (case ownProps v k of Some x \<Rightarrow> x | None \<Rightarrow> Undefined)"

section \<open>Locale resolution (product controller)\<close>

text \<open>
  \<open>new Set(xs)\<close> followed by \<open>Array.from\<close>: the elements in insertion order, an element
  already in the set is not inserted again.
\<close>

definition setAdd :: "'a list \<Rightarrow> 'a \<Rightarrow> 'a list" where
  "setAdd acc x = (if x \<in> set acc then acc else acc @ [x])"

definition arrayFromSet :: "'a list \<Rightarrow> 'a list" where
  "arrayFromSet xs = foldl setAdd [] xs"

text \<open>The type guard \<open>typeof x === "string" && x.trim().length > 0\<close>, keeping the string.\<close>

fun nonBlankString :: "jsval \<Rightarrow> jsstring option" where
  "nonBlankString (Str s) = (if trim s \<noteq> [] then Some s else None)"
| "nonBlankString _ = None"

text \<open>
  \<open>DEFAULT_LOCALE\<close> is a constant of the module \<open>i18n/types\<close>; it is a parameter here,
  as it is in every function below that reads it.
\<close>

definition buildLocalePriority :: "jsstring \<Rightarrow> jsval \<Rightarrow> jsstring list" where
  "buildLocalePriority DEFAULT_LOCALE locale =
     arrayFromSet
       (List.map_filter nonBlankString [locale, Str (js ''en''), Str DEFAULT_LOCALE, Str (js ''vi'')])"

text \<open>The \<open>for\<close> loop of \<open>pickLocalizedValue\<close>.\<close>

fun pickFromLocales :: "jsval \<Rightarrow> jsstring list \<Rightarrow> jsval" where
  "pickFromLocales v [] = Undefined"
| "pickFromLocales v (loc # locales) =
     (case nonBlankString (getProp v loc) of
        Some s \<Rightarrow> Str s
      | None \<Rightarrow> pickFromLocales v locales)"

definition pickLocalizedValue :: "jsval \<Rightarrow> jsstring list \<Rightarrow> jsval" where
  "pickLocalizedValue v locales =
     (if \<not> truthy v then Undefined
      else case v of Str s \<Rightarrow> Str s | _ \<Rightarrow> pickFromLocales v locales)"

definition attachMetaFields :: "jsstring \<Rightarrow> jsval \<Rightarrow> jsval \<Rightarrow> jsval" where
  "attachMetaFields DEFAULT_LOCALE product locale =
     (let locales = buildLocalePriority DEFAULT_LOCALE locale;
          metaTitle =
            jsOr (pickLocalizedValue (getProp product (js ''seoTitle_i18n'')) locales)
                 (pickLocalizedValue (getProp product (js ''name_i18n'')) locales);
          metaDescription =
            jsOr (jsOr (pickLocalizedValue (getProp product (js ''seoDescription_i18n'')) locales)
                       (pickLocalizedValue (getProp product (js ''shortDescription_i18n'')) locales))
                 (pickLocalizedValue (getProp product (js ''description_i18n'')) locales)
      in Obj ((ownProps product)
                (js ''metaTitle'' \<mapsto> metaTitle, js ''metaDescription'' \<mapsto> metaDescription)))"

text \<open>
  The chain as the specification words it: the four candidates in their precedence, the
  blank ones dropped, and of equal entries only the first kept.
\<close>

function keepFirst :: "'a list \<Rightarrow> 'a list" where
  "keepFirst [] = []"
| "keepFirst (x # xs) = x # keepFirst (filter (\<lambda>y. y \<noteq> x) xs)"
  by pat_completeness auto
termination
  by (relation "measure length") (auto simp: less_Suc_eq_le)

definition priorityChainSpec :: "jsstring \<Rightarrow> jsval \<Rightarrow> jsstring list" where
  "priorityChainSpec DEFAULT_LOCALE locale =
     keepFirst
       (List.map_filter nonBlankString [locale, Str (js ''en''), Str DEFAULT_LOCALE, Str (js ''vi'')])"

text \<open>The value of \<open>v\<close> under the key \<open>loc\<close> is a string with text left after trimming.\<close>

definition hasText :: "jsval \<Rightarrow> jsstring \<Rightarrow> bool" where
  "hasText v loc \<longleftrightarrow> (case getProp v loc of Str s \<Rightarrow> trim s \<noteq> [] | _ \<Rightarrow> False)"

text \<open>The first candidate that resolved to a value, \<open>undefined\<close> if none did.\<close>

fun firstResolved :: "jsval list \<Rightarrow> jsval" where
  "firstResolved [] = Undefined"
| "firstResolved (v # vs) = (if v \<noteq> Undefined then v else firstResolved vs)"

section \<open>Products and their collection\<close>

text \<open>
  A \<open>LocalizedString\<close> maps locale codes to text. The fields of a product that the
  repository and the hooks read are explicit; \<open>rest\<close> holds all the others. The same
  fields make up an update payload (\<open>Partial<IProduct>\<close>), where \<open>None\<close> means that the
  payload does not have the property.
\<close>

type_synonym localized = "jsstring \<Rightarrow> jsstring option"

record 'v fields =
  slug :: "jsstring option"
  name_i18n :: "localized option"
  category :: "jsstring option"
  rest :: "jsstring \<Rightarrow> 'v option"

text \<open>
  A document of the model adds the identity and what the storage library tracks:
  whether the document is new, and whether the path \<open>slug\<close> was modified since it was
  loaded.
\<close>

record 'v document = "'v fields" +
  doc_id :: nat
  isNew :: bool
  slugModified :: bool

datatype error = PRODUCT_NAME_DUPLICATE | ValidationError | DuplicateKeyError

text \<open>Truthiness of an optional string, and \<open>a || b\<close> with a string on the right.\<close>

definition truthyStr :: "jsstring option \<Rightarrow> bool" where
  "truthyStr a \<longleftrightarrow> (case a of Some s \<Rightarrow> s \<noteq> [] | None \<Rightarrow> False)"

definition orElse :: "jsstring option \<Rightarrow> jsstring \<Rightarrow> jsstring" where
  "orElse a b = (case a of Some s \<Rightarrow> if s \<noteq> [] then s else b | None \<Rightarrow> b)"

text \<open>\<open>doc.name_i18n?.[locale]\<close>\<close>

definition nameIn :: "('v, 'z) fields_scheme \<Rightarrow> jsstring \<Rightarrow> jsstring option" where
  "nameIn doc locale = (case name_i18n doc of Some n \<Rightarrow> n locale | None \<Rightarrow> None)"

text \<open>\<open>nameEn || nameDefault || nameVi || fallback\<close>\<close>

definition nameBase :: "jsstring \<Rightarrow> ('v, 'z) fields_scheme \<Rightarrow> jsstring \<Rightarrow> jsstring" where
  "nameBase DEFAULT_LOCALE doc fallback =
     orElse (nameIn doc (js ''en''))
       (orElse (nameIn doc DEFAULT_LOCALE) (orElse (nameIn doc (js ''vi'')) fallback))"

text \<open>
  An assignment to \<open>doc.slug\<close>: the path counts as modified when the new value differs
  from the current one.
\<close>

definition setSlug :: "jsstring \<Rightarrow> 'v document \<Rightarrow> 'v document" where
  "setSlug v doc = doc\<lparr>slug := Some v, slugModified := slugModified doc \<or> slug doc \<noteq> Some v\<rparr>"

text \<open>
  The schema declares \<open>trim: true, lowercase: true\<close> for \<open>slug\<close>: what a client submits
  is lower-cased and trimmed when it is assigned. The values that the hooks and the
  repository assign are outputs of \<open>slugify\<close>, which the setters leave as they are
  (lemma \<open>slugSetter_id\<close>), so the setters are applied to submitted values only.
\<close>

definition slugSetter :: "platform \<Rightarrow> jsstring \<Rightarrow> jsstring" where
  "slugSetter P v = trim (toLowerCase P v)"

text \<open>\<open>ProductModel.exists({ slug: candidate, _id: { $ne: doc._id } })\<close>\<close>

definition slugExists :: "'v document list \<Rightarrow> jsstring \<Rightarrow> nat \<Rightarrow> bool" where
  "slugExists store candidate self \<longleftrightarrow>
     list_ex (\<lambda>d. slug d = Some candidate \<and> doc_id d \<noteq> self) store"

text \<open>\<open>`${base}-${i}`\<close>\<close>

definition suffixed :: "jsstring \<Rightarrow> nat \<Rightarrow> jsstring" where
  "suffixed base i = base @ [hyphen] @ decimal i"

text \<open>The \<open>while\<close> loop of \<open>ensureUniqueSlug\<close>, on the variables \<open>candidate\<close> and \<open>i\<close>.\<close>

function uniqueSlugLoop ::
  "'v document list \<Rightarrow> nat \<Rightarrow> jsstring \<Rightarrow> jsstring \<Rightarrow> nat \<Rightarrow> jsstring" where
  "uniqueSlugLoop store self base candidate i =
     (if slugExists store candidate self
      then uniqueSlugLoop store self base (suffixed base i) (Suc i)
      else candidate)"
  by pat_completeness auto

definition baseInput :: "jsstring \<Rightarrow> 'v document \<Rightarrow> jsstring" where
  "baseInput DEFAULT_LOCALE doc =
     orElse (slug doc) (nameBase DEFAULT_LOCALE doc (js ''product''))"

definition ensureUniqueSlug ::
  "platform \<Rightarrow> jsstring \<Rightarrow> 'v document list \<Rightarrow> 'v document \<Rightarrow> 'v document" where
  "ensureUniqueSlug P DEFAULT_LOCALE store doc =
     (let base = slugify P (baseInput DEFAULT_LOCALE doc);
          candidate = (if base \<noteq> [] then base else js ''product'')
      in doc\<lparr>slug := Some (uniqueSlugLoop store (doc_id doc) base candidate 2)\<rparr>)"

text \<open>The hook \<open>pre("validate")\<close>.\<close>

definition preValidate :: "platform \<Rightarrow> jsstring \<Rightarrow> 'v document \<Rightarrow> 'v document" where
  "preValidate P DEFAULT_LOCALE doc =
     (case slug doc of
        Some s \<Rightarrow>
          if s \<noteq> [] then setSlug (slugify P s) doc
          else setSlug (slugify P (nameBase DEFAULT_LOCALE doc (js ''product''))) doc
      | None \<Rightarrow> setSlug (slugify P (nameBase DEFAULT_LOCALE doc (js ''product''))) doc)"

text \<open>
  The validators that the schema declares for the explicit fields: \<open>slug\<close> is required
  (an empty string does not count) and has at most 160 characters, \<open>name_i18n\<close> is
  required, \<open>category\<close> is one of the enumerated values. The validators of the other
  fields are the parameter \<open>restValid\<close>.
\<close>

definition categories :: "jsstring list" where
  "categories =
     [js ''coffee'', js ''tea'', js ''cake'', js ''other drinks'', js ''espresso'',
      js ''cold brew'', js ''chocolate'', js ''green teas'', js ''other teas'', js ''matcha'']"

definition schemaValid :: "((jsstring \<Rightarrow> 'v option) \<Rightarrow> bool) \<Rightarrow> 'v document \<Rightarrow> bool" where
  "schemaValid restValid doc \<longleftrightarrow>
     (case slug doc of Some s \<Rightarrow> s \<noteq> [] \<and> length s \<le> 160 | None \<Rightarrow> False) \<and>
     name_i18n doc \<noteq> None \<and>
     (case category doc of Some c \<Rightarrow> c \<in> set categories | None \<Rightarrow> True) \<and>
     restValid (rest doc)"

text \<open>The hook \<open>pre("save")\<close>.\<close>

definition preSave ::
  "platform \<Rightarrow> jsstring \<Rightarrow> 'v document list \<Rightarrow> 'v document \<Rightarrow> 'v document" where
  "preSave P DEFAULT_LOCALE store doc =
     (if isNew doc \<or> slugModified doc then ensureUniqueSlug P DEFAULT_LOCALE store doc else doc)"

text \<open>
  \<open>doc.save()\<close>: the validate hook, validation, the save hook, then the write, which the
  unique index on \<open>slug\<close> can refuse. The result is the outcome and the collection after it.
\<close>

definition writeDoc :: "'v document list \<Rightarrow> 'v document \<Rightarrow> 'v document list" where
  "writeDoc store doc =
     (if isNew doc then store @ [doc\<lparr>isNew := False, slugModified := False\<rparr>]
      else map (\<lambda>d. if doc_id d = doc_id doc then doc\<lparr>slugModified := False\<rparr> else d) store)"

definition save ::
  "platform \<Rightarrow> jsstring \<Rightarrow> ((jsstring \<Rightarrow> 'v option) \<Rightarrow> bool) \<Rightarrow> 'v document list \<Rightarrow>
   'v document \<Rightarrow> (error + 'v document) \<times> 'v document list" where
  "save P DEFAULT_LOCALE restValid store doc =
     (let d1 = preValidate P DEFAULT_LOCALE doc in
      if \<not> schemaValid restValid d1 then (Inl ValidationError, store)
      else
        let d2 = preSave P DEFAULT_LOCALE store d1 in
        if slugExists store (orElse (slug d2) []) (doc_id d2) then (Inl DuplicateKeyError, store)
        else (Inr (d2\<lparr>isNew := False, slugModified := False\<rparr>), writeDoc store d2))"

section \<open>The product repository\<close>

text \<open>
  \<open>ensureUniqueName\<close>: the \<open>$or\<close> filter has one clause for \<open>name.vi\<close> and one for
  \<open>name.en\<close>, each only when the value is truthy.
\<close>

definition nameClause :: "localized \<Rightarrow> jsstring \<Rightarrow> 'v document \<Rightarrow> bool" where
  "nameClause name locale d \<longleftrightarrow> truthyStr (name locale) \<and> nameIn d locale = name locale"

definition ensureUniqueName ::
  "'v document list \<Rightarrow> jsstring option \<Rightarrow> localized option \<Rightarrow> nat option \<Rightarrow> error + unit" where
  "ensureUniqueName store cat name excludeId =
     (if \<not> truthyStr cat then Inr ()
      else case name of
        None \<Rightarrow> Inr ()
      | Some n \<Rightarrow>
          if \<not> truthyStr (n (js ''vi'')) \<and> \<not> truthyStr (n (js ''en'')) then Inr ()
          else if list_ex (\<lambda>d. category d = cat \<and>
                      (nameClause n (js ''vi'') d \<or> nameClause n (js ''en'') d) \<and>
                      (case excludeId of Some x \<Rightarrow> doc_id d \<noteq> x | None \<Rightarrow> True)) store
          then Inl PRODUCT_NAME_DUPLICATE
          else Inr ())"

text \<open>\<open>new ProductModel({ ...data, category })\<close>, with the identity the driver gives it.\<close>

definition newDocument :: "platform \<Rightarrow> nat \<Rightarrow> 'v fields \<Rightarrow> jsstring \<Rightarrow> 'v document" where
  "newDocument P newId data cat =
     \<lparr> slug = map_option (slugSetter P) (slug data), name_i18n = name_i18n data,
       category = Some cat, rest = rest data,
       doc_id = newId, isNew = True, slugModified = False \<rparr>"

definition create ::
  "platform \<Rightarrow> jsstring \<Rightarrow> ((jsstring \<Rightarrow> 'v option) \<Rightarrow> bool) \<Rightarrow> 'v document list \<Rightarrow> nat \<Rightarrow>
   'v fields \<Rightarrow> (error + 'v document) \<times> 'v document list" where
  "create P DEFAULT_LOCALE restValid store newId data =
     (let cat = orElse (category data) (js ''coffee'') in
      case ensureUniqueName store (Some cat) (name_i18n data) None of
        Inl e \<Rightarrow> (Inl e, store)
      | Inr _ \<Rightarrow> save P DEFAULT_LOCALE restValid store (newDocument P newId data cat))"

text \<open>\<open>Object.assign(doc, data)\<close>\<close>

definition assignData :: "platform \<Rightarrow> 'v document \<Rightarrow> 'v fields \<Rightarrow> 'v document" where
  "assignData P doc data =
     (let d1 = (case slug data of Some s \<Rightarrow> setSlug (slugSetter P s) doc | None \<Rightarrow> doc)
      in d1\<lparr> name_i18n := (case name_i18n data of Some n \<Rightarrow> Some n | None \<Rightarrow> name_i18n d1),
             category := (case category data of Some c \<Rightarrow> Some c | None \<Rightarrow> category d1),
             rest := rest d1 ++ rest data \<rparr>)"

definition findById :: "'v document list \<Rightarrow> nat \<Rightarrow> 'v document option" where
  "findById store i = find (\<lambda>d. doc_id d = i) store"

text \<open>
  \<open>hasSlugInBody\<close>: the payload has a string \<open>slug\<close> that is not blank; the result
  carries that string.
\<close>

definition hasSlugInBody :: "'v fields \<Rightarrow> jsstring option" where
  "hasSlugInBody data =
     (case slug data of Some s \<Rightarrow> if trim s \<noteq> [] then Some s else None | None \<Rightarrow> None)"

text \<open>
  The document that \<open>update\<close> hands to \<open>save\<close>: \<open>Object.assign\<close>, then the slug
  from the payload if it has one, else from the name if the name base changed.
\<close>

definition updatedDoc :: "platform \<Rightarrow> jsstring \<Rightarrow> 'v document \<Rightarrow> 'v fields \<Rightarrow> 'v document" where
  "updatedDoc P DEFAULT_LOCALE doc data =
     (let oldNameBase = nameBase DEFAULT_LOCALE doc [];
          d1 = assignData P doc data;
          newNameBase = nameBase DEFAULT_LOCALE d1 []
      in case hasSlugInBody data of
           Some s \<Rightarrow> setSlug (slugify P s) d1
         | None \<Rightarrow>
             if newNameBase \<noteq> [] \<and> newNameBase \<noteq> oldNameBase
             then setSlug (slugify P newNameBase) d1
             else d1)"

definition update ::
  "platform \<Rightarrow> jsstring \<Rightarrow> ((jsstring \<Rightarrow> 'v option) \<Rightarrow> bool) \<Rightarrow> 'v document list \<Rightarrow> nat \<Rightarrow>
   'v fields \<Rightarrow> (error + 'v document option) \<times> 'v document list" where
  "update P DEFAULT_LOCALE restValid store i data =
     (case findById store i of
        None \<Rightarrow> (Inr None, store)
      | Some doc \<Rightarrow>
          (let newCategory = (if truthyStr (category data) then category data else category doc);
               newName = (case name_i18n data of Some n \<Rightarrow> Some n | None \<Rightarrow> name_i18n doc)
           in case ensureUniqueName store newCategory newName (Some (doc_id doc)) of
                Inl e \<Rightarrow> (Inl e, store)
              | Inr _ \<Rightarrow>
                  (case save P DEFAULT_LOCALE restValid store (updatedDoc P DEFAULT_LOCALE doc data) of
                     (Inl e, store') \<Rightarrow> (Inl e, store')
                   | (Inr d, store') \<Rightarrow> (Inr (Some d), store'))))"

text \<open>
  Every stored document has a non-empty slug of the shape of a slug, and is neither new
  nor modified.
\<close>

definition slugOk :: "'v document \<Rightarrow> bool" where
  "slugOk d \<longleftrightarrow> (case slug d of Some s \<Rightarrow> s \<noteq> [] \<and> slugShaped s | None \<Rightarrow> False)"

definition storeOk :: "'v document list \<Rightarrow> bool" where
  "storeOk store \<longleftrightarrow> list_all (\<lambda>d. slugOk d \<and> \<not> isNew d \<and> \<not> slugModified d) store"

text \<open>
  The conflict that \<open>ensureUniqueName\<close> looks for: a document other than the excluded
  one has the category and, at \<open>vi\<close> or at \<open>en\<close>, the same non-empty name.
\<close>

definition nameConflict ::
  "'v document list \<Rightarrow> jsstring option \<Rightarrow> localized option \<Rightarrow> nat option \<Rightarrow> bool" where
  "nameConflict store cat name excludeId \<longleftrightarrow>
     truthyStr cat \<and>
     (case name of
        None \<Rightarrow> False
      | Some n \<Rightarrow>
          list_ex (\<lambda>d. excludeId \<noteq> Some (doc_id d) \<and> category d = cat \<and>
                     list_ex (\<lambda>loc. truthyStr (n loc) \<and> nameIn d loc = n loc) [js ''vi'', js ''en''])
            store)"

text \<open>The measure by which the loop of \<open>ensureUniqueSlug\<close> terminates: the documents that still block a suffix from \<open>i\<close> on.\<close>

definition blocking :: "'v document list \<Rightarrow> nat \<Rightarrow> jsstring \<Rightarrow> nat \<Rightarrow> nat" where
  "blocking store self base i =
     length (filter (\<lambda>d. doc_id d \<noteq> self \<and> (\<exists>j\<ge>i. slug d = Some (suffixed base j))) store)"

text \<open>Two stored products for the examples below.\<close>

definition exLatte :: "nat document" where
  "exLatte = \<lparr> slug = Some (js ''latte''), name_i18n = Some [js ''en'' \<mapsto> js ''Latte''],
     category = Some (js ''coffee''), rest = [js ''price'' \<mapsto> 4],
     doc_id = 1, isNew = False, slugModified = False \<rparr>"

definition exCafe :: "nat document" where
  "exCafe = \<lparr> slug = Some (js ''ca-phe''),
     name_i18n = Some [js ''vi'' \<mapsto> js ''Ca phe'', js ''fr'' \<mapsto> js ''Cafe''],
     category = Some (js ''coffee''), rest = [js ''price'' \<mapsto> 3],
     doc_id = 1, isNew = False, slugModified = False \<rparr>"

section \<open>The product controller\<close>

text \<open>
  A request as the handlers read it, and the response they build. Only the headers
  that a handler sets itself are recorded.
\<close>

record request =
  body :: jsval
  query :: jsval
  headers :: jsval
  params :: jsval

record response =
  statusCode :: nat
  resHeaders :: "(jsstring \<times> jsstring) list"
  sent :: "jsval option"

definition freshResponse :: response where
  "freshResponse = \<lparr> statusCode = 200, resHeaders = [], sent = None \<rparr>"

text \<open>\<open>res.status(code)\<close>, \<open>res.setHeader(name, value)\<close> and \<open>res.json(value)\<close>\<close>

definition status :: "nat \<Rightarrow> response \<Rightarrow> response" where
  "status code res = res\<lparr>statusCode := code\<rparr>"

definition setHeader :: "jsstring \<Rightarrow> jsstring \<Rightarrow> response \<Rightarrow> response" where
  "setHeader name v res =
     res\<lparr>resHeaders := filter (\<lambda>h. fst h \<noteq> name) (resHeaders res) @ [(name, v)]\<rparr>"

definition json :: "jsval \<Rightarrow> response \<Rightarrow> response" where
  "json v res = res\<lparr>sent := Some v\<rparr>"

definition message :: "jsval \<Rightarrow> jsval" where
  "message m = Obj [js ''message'' \<mapsto> m]"

text \<open>
  What the handlers call and the repository does not define here: the module
  \<open>i18n/localize\<close>, \<open>JSON.parse\<close>, and the awaited outcome of a repository call, which
  is the thrown value or the plain object of the document.
\<close>

record deps =
  defaultLocale :: jsstring
  detectLocale :: "jsval \<Rightarrow> jsstring"
  localizeDoc :: "jsval \<Rightarrow> jsval \<Rightarrow> jsstring list \<Rightarrow> jsval"
  jsonParse :: "jsstring \<Rightarrow> jsval + jsval"
  repoCreate :: "jsval \<Rightarrow> jsval + jsval"
  repoUpdate :: "jsval \<Rightarrow> jsval \<Rightarrow> jsval + jsval"
  repoGetBySlug :: "jsval \<Rightarrow> jsval + jsval"

definition L_FIELDS :: "jsstring list" where
  "L_FIELDS =
     [js ''name'', js ''shortDescription'', js ''description'', js ''seoTitle'', js ''seoDescription'']"

definition TEMP_OPTIONS :: "jsval list" where
  "TEMP_OPTIONS = [Str (js ''hot''), Str (js ''iced''), Str (js ''both''), Str (js ''warm'')]"

text \<open>\<open>typeof v === "object"\<close> and \<open>typeof v === "number"\<close>\<close>

fun isObjectType :: "jsval \<Rightarrow> bool" where
  "isObjectType Null = True"
| "isObjectType (Arr xs) = True"
| "isObjectType (Obj m) = True"
| "isObjectType _ = False"

fun isNumberType :: "jsval \<Rightarrow> bool" where
  "isNumberType (Num n) = True"
| "isNumberType NaN = True"
| "isNumberType _ = False"

definition shouldLocalize :: "request \<Rightarrow> bool" where
  "shouldLocalize req =
     (if truthy (query req) \<and> truthy (getProp (query req) (js ''locale'')) then True
      else case getProp (headers req) (js ''accept-language'') of
             Str s \<Rightarrow> trim s \<noteq> []
           | _ \<Rightarrow> False)"

text \<open>\<open>req.query.locale || detectLocale(req.headers["accept-language"])\<close>\<close>

definition requestLocale :: "deps \<Rightarrow> request \<Rightarrow> jsval" where
  "requestLocale D req =
     jsOr (getProp (query req) (js ''locale''))
          (Str (detectLocale D (getProp (headers req) (js ''accept-language''))))"

text \<open>The two checks on the body that \<open>createProduct\<close> and \<open>updateProduct\<close> share.\<close>

definition priceInvalid :: "jsval \<Rightarrow> bool" where
  "priceInvalid p \<longleftrightarrow>
     \<not> isNumberType p \<or> p = NaN \<or> (case p of Num n \<Rightarrow> n < 0 | _ \<Rightarrow> False)"

definition temperatureOptionsInvalid :: "jsval \<Rightarrow> bool" where
  "temperatureOptionsInvalid t \<longleftrightarrow>
     t \<noteq> Undefined \<and>
     (case t of Arr xs \<Rightarrow> \<not> list_all (\<lambda>opt. opt \<in> set TEMP_OPTIONS) xs | _ \<Rightarrow> True)"

definition temperatureOptionsMessage :: jsval where
  "temperatureOptionsMessage =
     message (Str (js ''temperatureOptions must be an array of: hot, iced, both, warm''))"

text \<open>The \<open>catch\<close> blocks of \<open>createProduct\<close> and \<open>updateProduct\<close>, with their default message.\<close>

definition writeError :: "jsstring \<Rightarrow> jsval \<Rightarrow> response" where
  "writeError fallback err =
     (if getProp err (js ''code'') = Str (js ''PRODUCT_NAME_DUPLICATE'')
      then json (message (jsOr (getProp err (js ''message''))
                               (Str (js ''Product name already exists in this category''))))
             (status 409 freshResponse)
      else json (message (jsOr (getProp err (js ''message'')) (Str fallback)))
             (status 400 freshResponse))"

definition createProduct :: "deps \<Rightarrow> request \<Rightarrow> response" where
  "createProduct D req =
     (case (case body req of Str s \<Rightarrow> jsonParse D s | b \<Rightarrow> Inr b) of
        Inl err \<Rightarrow> writeError (js ''Create product failed'') err
      | Inr b \<Rightarrow>
          if \<not> truthy b \<or> \<not> isObjectType b
          then json (message (Str (js ''Missing JSON body''))) (status 400 freshResponse)
          else if \<not> truthy (getProp b (js ''name_i18n'')) \<or>
                  (\<not> truthy (getProp (getProp b (js ''name_i18n'')) (js ''vi'')) \<and>
                   \<not> truthy (getProp (getProp b (js ''name_i18n'')) (js ''en'')))
          then json (message (Str (js ''At least one localized name (vi/en) is required'')))
                 (status 400 freshResponse)
          else if priceInvalid (getProp b (js ''price''))
          then json (message (Str (js ''price must be a non-negative number'')))
                 (status 400 freshResponse)
          else if temperatureOptionsInvalid (getProp b (js ''temperatureOptions''))
          then json temperatureOptionsMessage (status 400 freshResponse)
          else (case repoCreate D b of
                  Inl err \<Rightarrow> writeError (js ''Create product failed'') err
                | Inr doc \<Rightarrow>
                    json (attachMetaFields (defaultLocale D) doc (requestLocale D req))
                      (status 201 freshResponse)))"

definition updateProduct :: "deps \<Rightarrow> request \<Rightarrow> response" where
  "updateProduct D req =
     (let b = (case body req of
                 Str s \<Rightarrow> (case jsonParse D s of Inr v \<Rightarrow> v | Inl err \<Rightarrow> Str s)
               | v \<Rightarrow> v)
      in if \<not> truthy b \<or> \<not> isObjectType b
         then json (message (Str (js ''Missing JSON body''))) (status 400 freshResponse)
         else if getProp b (js ''price'') \<noteq> Undefined \<and> priceInvalid (getProp b (js ''price''))
         then json (message (Str (js ''price must be a non-negative number'')))
                (status 400 freshResponse)
         else if temperatureOptionsInvalid (getProp b (js ''temperatureOptions''))
         then json temperatureOptionsMessage (status 400 freshResponse)
         else (case repoUpdate D (getProp (params req) (js ''id'')) b of
                 Inl err \<Rightarrow> writeError (js ''Update failed'') err
               | Inr updated \<Rightarrow>
                   if \<not> truthy updated
                   then json (message (Str (js ''Not found''))) (status 404 freshResponse)
                   else json (attachMetaFields (defaultLocale D) updated (requestLocale D req))
                          freshResponse))"

definition getProductBySlug :: "deps \<Rightarrow> request \<Rightarrow> response" where
  "getProductBySlug D req =
     (let locale = requestLocale D req in
      case repoGetBySlug D (getProp (params req) (js ''slug'')) of
        Inl err \<Rightarrow> json (message (Str (js ''Failed to get product''))) (status 500 freshResponse)
      | Inr product \<Rightarrow>
          if \<not> truthy product
          then json (message (Str (js ''Not found''))) (status 404 freshResponse)
          else
            (let withMeta = attachMetaFields (defaultLocale D) product locale;
                 res = setHeader (js ''Vary'') (js ''Accept-Language'') freshResponse
             in if \<not> shouldLocalize req then json withMeta res
                else json (localizeDoc D withMeta locale L_FIELDS) res))"

text \<open>
  A request, a product and collaborators for the examples below: the repository gives
  back what it is given, the detected locale is the default.
\<close>

definition exMilkCoffee :: jsval where
  "exMilkCoffee =
     Obj [js ''name_i18n'' \<mapsto> Obj [js ''vi'' \<mapsto> Str (js ''Ca phe sua''), js ''en'' \<mapsto> Str (js ''Milk coffee'')],
          js ''price'' \<mapsto> Num 3]"

definition exDeps :: deps where
  "exDeps =
     \<lparr> defaultLocale = js ''vi'',
       detectLocale = (\<lambda>h. js ''vi''),
       localizeDoc = (\<lambda>d l fs. d),
       jsonParse = (\<lambda>s. Inl (message (Str (js ''Unexpected token'')))),
       repoCreate = (\<lambda>b. Inr b),
       repoUpdate = (\<lambda>i b. Inr b),
       repoGetBySlug = (\<lambda>s. Inr exMilkCoffee) \<rparr>"

definition exRequest :: "jsstring \<Rightarrow> request" where
  "exRequest l =
     \<lparr> body = exMilkCoffee, query = Obj [js ''locale'' \<mapsto> Str l], headers = Obj Map.empty,
       params = Obj [js ''slug'' \<mapsto> Str (js ''milk-coffee''), js ''id'' \<mapsto> Str (js ''1'')] \<rparr>"

section \<open>Reading properties\<close>

lemma getProp_Obj [simp]: "getProp (Obj m) k = (case m k of Some v \<Rightarrow> v | None \<Rightarrow> Undefined)"
  by (simp add: getProp_def)

lemma getProp_none [simp]:
  "getProp Undefined k = Undefined" "getProp Null k = Undefined" "getProp (Bool b) k = Undefined"
  "getProp (Num n) k = Undefined" "getProp NaN k = Undefined"
  by (simp_all add: getProp_def)

section \<open>Properties of slugify\<close>

lemma collapseRuns_chars: "slugChars (collapseRuns s)"
  by (induction s rule: collapseRuns.induct) (auto simp: slugChars_def)

lemma isAlnum_not_hyphen: "isAlnum c \<Longrightarrow> c \<noteq> hyphen"
  by (auto simp: isAlnum_def hyphen_def)

lemma isAlnum_not_ws: "isAlnum c \<Longrightarrow> \<not> isWhiteSpace c"
  by (auto simp: isAlnum_def isWhiteSpace_def)

lemma isAlnum_not_mark: "isAlnum c \<Longrightarrow> \<not> isCombiningMark c"
  by (auto simp: isAlnum_def isCombiningMark_def)

lemma singleHyphens_nth:
  "singleHyphens s \<longleftrightarrow> (\<forall>i. Suc i < length s \<longrightarrow> \<not> (s ! i = hyphen \<and> s ! Suc i = hyphen))"
proof (induction s rule: singleHyphens.induct)
  case (1 c d cs)
  show ?case
  proof
    assume a: "singleHyphens (c # d # cs)"
    show "\<forall>i. Suc i < length (c # d # cs) \<longrightarrow> \<not> ((c # d # cs) ! i = hyphen \<and> (c # d # cs) ! Suc i = hyphen)"
    proof (intro allI impI)
      fix i assume "Suc i < length (c # d # cs)"
      then show "\<not> ((c # d # cs) ! i = hyphen \<and> (c # d # cs) ! Suc i = hyphen)"
        using a 1 by (cases i) auto
    qed
  next
    assume a: "\<forall>i. Suc i < length (c # d # cs) \<longrightarrow> \<not> ((c # d # cs) ! i = hyphen \<and> (c # d # cs) ! Suc i = hyphen)"
    have "\<not> (c = hyphen \<and> d = hyphen)" using a [rule_format, of 0] by simp
    moreover have "singleHyphens (d # cs)"
      unfolding 1
    proof (intro allI impI)
      fix i assume "Suc i < length (d # cs)"
      then show "\<not> ((d # cs) ! i = hyphen \<and> (d # cs) ! Suc i = hyphen)"
        using a [rule_format, of "Suc i"] by simp
    qed
    ultimately show "singleHyphens (c # d # cs)" by simp
  qed
qed auto

lemma collapseRuns_head:
  "collapseRuns (dropWhile (\<lambda>x. \<not> isAlnum x) cs) = [] \<or>
   isAlnum (hd (collapseRuns (dropWhile (\<lambda>x. \<not> isAlnum x) cs)))"
proof (cases "dropWhile (\<lambda>x. \<not> isAlnum x) cs")
  case Nil then show ?thesis by (simp only: collapseRuns.simps simp_thms)
next
  case (Cons a as)
  then have "isAlnum a" using hd_dropWhile [of "\<lambda>x. \<not> isAlnum x" cs] by auto
  with Cons show ?thesis by simp
qed

lemma singleHyphens_Cons:
  "singleHyphens (c # s) \<longleftrightarrow> (s = [] \<or> \<not> (c = hyphen \<and> hd s = hyphen)) \<and> singleHyphens s"
  by (cases s) auto

lemma collapseRuns_single: "singleHyphens (collapseRuns s)"
proof (induction s rule: collapseRuns.induct)
  case 1 show ?case by simp
next
  case (2 c cs)
  show ?case
  proof (cases "isAlnum c")
    case True
    with 2 show ?thesis by (simp add: singleHyphens_Cons isAlnum_not_hyphen)
  next
    case False
    with 2 collapseRuns_head [of cs] show ?thesis
      by (auto simp: singleHyphens_Cons isAlnum_not_hyphen)
  qed
qed


lemma slugChars_tl: "slugChars (c # s) \<Longrightarrow> slugChars s"
  by (simp add: slugChars_def)

lemma slugChars_butlast: "slugChars s \<Longrightarrow> slugChars (butlast s)"
  by (auto simp: slugChars_def list_all_iff dest: in_set_butlastD)

lemma singleHyphens_butlast: "singleHyphens s \<Longrightarrow> singleHyphens (butlast s)"
  by (auto simp: singleHyphens_nth nth_butlast)

lemma singleHyphens_last_butlast:
  assumes "singleHyphens s" "s \<noteq> []" "last s = hyphen" "butlast s \<noteq> []"
  shows "last (butlast s) \<noteq> hyphen"
proof -
  obtain n where n: "length s = Suc (Suc n)"
    using assms(2,4) by (cases s rule: rev_cases; cases "butlast s") (auto simp: neq_Nil_conv)
  have "s ! Suc n = hyphen" using assms(3) n by (simp add: last_conv_nth assms(2))
  moreover have "last (butlast s) = s ! n"
    using n assms(4) by (simp add: last_conv_nth nth_butlast)
  ultimately show ?thesis using assms(1) n by (auto simp: singleHyphens_nth)
qed

lemma stripEdgeHyphens_shape:
  assumes "slugChars s" "singleHyphens s"
  shows "slugShaped (stripEdgeHyphens s)"
proof -
  define s1 where "s1 = (case s of [] \<Rightarrow> [] | c # cs \<Rightarrow> if c = hyphen then cs else s)"
  have c1: "slugChars s1" using assms(1) by (auto simp: s1_def slugChars_def split: list.splits)
  have h1: "singleHyphens s1" using assms(2) by (auto simp: s1_def singleHyphens_Cons split: list.splits)
  have e1: "s1 = [] \<or> hd s1 \<noteq> hyphen"
    using assms(2) by (auto simp: s1_def singleHyphens_Cons split: list.splits)
  have r: "stripEdgeHyphens s = (if s1 \<noteq> [] \<and> last s1 = hyphen then butlast s1 else s1)"
    by (simp add: stripEdgeHyphens_def s1_def)
  show ?thesis
  proof (cases "s1 \<noteq> [] \<and> last s1 = hyphen")
    case True
    then have "butlast s1 = [] \<or> last (butlast s1) \<noteq> hyphen"
      using singleHyphens_last_butlast [OF h1] by blast
    moreover have "butlast s1 = [] \<or> hd (butlast s1) \<noteq> hyphen"
      using e1 True by (cases s1; cases "tl s1") auto
    ultimately show ?thesis
      using True r c1 h1
      by (auto simp: slugShaped_def noEdgeHyphen_def slugChars_butlast singleHyphens_butlast)
  next
    case False
    then show ?thesis using r c1 h1 e1 by (auto simp: slugShaped_def noEdgeHyphen_def)
  qed
qed

lemma slugify_shape: "slugShaped (slugify P x)"
  unfolding slugify_def by (rule stripEdgeHyphens_shape [OF collapseRuns_chars collapseRuns_single])


lemma stripMarks_id: "slugChars s \<Longrightarrow> stripMarks s = s"
proof -
  assume "slugChars s"
  then have "\<forall>c\<in>set s. \<not> isCombiningMark c"
    by (auto simp: slugChars_def list_all_iff isAlnum_def hyphen_def isCombiningMark_def)
  then show ?thesis by (simp add: stripMarks_def)
qed

lemma dropWhile_keep: "xs \<noteq> [] \<Longrightarrow> \<not> Q (hd xs) \<Longrightarrow> dropWhile Q xs = xs"
  by (cases xs) auto

lemma trim_id:
  assumes "slugChars s" "noEdgeHyphen s"
  shows "trim s = s"
proof (cases s)
  case Nil then show ?thesis by (simp add: trim_def)
next
  case (Cons c cs)
  then have "isAlnum (hd s)" "isAlnum (last s)"
    using assms by (auto simp: slugChars_def noEdgeHyphen_def list_all_iff)
  then have a: "\<not> isWhiteSpace (hd s)" and b: "\<not> isWhiteSpace (last s)"
    by (simp_all add: isAlnum_not_ws)
  have "dropWhile isWhiteSpace s = s" using a Cons by simp
  moreover have "dropWhile isWhiteSpace (rev s) = rev s"
  proof (rule dropWhile_keep)
    show "rev s \<noteq> []" using Cons by simp
    show "\<not> isWhiteSpace (hd (rev s))" using b by (simp add: hd_rev)
  qed
  ultimately show ?thesis by (simp add: trim_def)
qed

lemma collapseRuns_id:
  "slugChars s \<Longrightarrow> singleHyphens s \<Longrightarrow> s = [] \<or> last s \<noteq> hyphen \<Longrightarrow> collapseRuns s = s"
proof (induction s rule: collapseRuns.induct)
  case 1 show ?case by simp
next
  case (2 c cs)
  show ?case
  proof (cases "isAlnum c")
    case True
    with 2 show ?thesis by (auto simp: slugChars_def singleHyphens_Cons split: if_splits)
  next
    case False
    then have ch: "c = hyphen" using 2(3) by (simp add: slugChars_def)
    then have ne: "cs \<noteq> []" using 2(5) by auto
    then have "hd cs \<noteq> hyphen" using 2(4) ch by (simp add: singleHyphens_Cons)
    then have hd: "isAlnum (hd cs)" using 2(3) ne by (cases cs) (auto simp: slugChars_def)
    then have d: "dropWhile (\<lambda>x. \<not> isAlnum x) cs = cs" using ne by (cases cs) auto
    have "collapseRuns cs = cs"
      using 2(2) [OF False] 2(3,4,5) ne d by (auto simp: slugChars_def singleHyphens_Cons)
    then show ?thesis using False ch d by simp
  qed
qed

lemma stripEdgeHyphens_id: "noEdgeHyphen s \<Longrightarrow> stripEdgeHyphens s = s"
  by (cases s) (auto simp: noEdgeHyphen_def stripEdgeHyphens_def)

lemma slugify_fixpoint:
  assumes "platformOk P" "slugShaped s"
  shows "slugify P s = s"
proof -
  have c: "slugChars s" and h: "singleHyphens s" and e: "noEdgeHyphen s"
    using assms(2) by (simp_all add: slugShaped_def)
  have "normalizeNFKD P s = s" "toLowerCase P s = s"
    using assms(1) c by (simp_all add: platformOk_def)
  moreover have "collapseRuns s = s"
    using collapseRuns_id [OF c h] e by (auto simp: noEdgeHyphen_def)
  ultimately show ?thesis
    by (simp add: slugify_def stripMarks_id [OF c] trim_id [OF c e] stripEdgeHyphens_id [OF e])
qed

lemma asciiPlatform_ok: "platformOk asciiPlatform"
  by (auto simp: platformOk_def asciiPlatform_def slugChars_def list_all_iff isAlnum_def hyphen_def
      intro!: map_idI)

section \<open>The slug loop terminates\<close>

lemma decimal_nonempty: "decimal n \<noteq> []"
  by (subst decimal.simps) simp

lemma decimal_length: "10 \<le> n \<Longrightarrow> 2 \<le> length (decimal n)"
  using decimal_nonempty [of "n div 10"]
  by (subst decimal.simps) (simp add: Suc_le_eq)

lemma decimal_inj: "decimal n = decimal m \<Longrightarrow> n = m"
proof (induction n arbitrary: m rule: decimal.induct)
  case (1 n)
  show ?case
  proof (cases "n < 10")
    case True
    show ?thesis
    proof (cases "m < 10")
      case True
      with \<open>n < 10\<close> 1(2) show ?thesis by (simp add: decimal.simps)
    next
      case False
      then have "2 \<le> length (decimal m)" by (simp add: decimal_length)
      moreover have "length (decimal n) = 1" using True by (simp add: decimal.simps)
      ultimately show ?thesis using 1(2) by simp
    qed
  next
    case False
    show ?thesis
    proof (cases "m < 10")
      case True
      have "2 \<le> length (decimal n)" using False by (simp add: decimal_length)
      moreover have "length (decimal m) = 1" using True by (simp add: decimal.simps)
      ultimately show ?thesis using 1(2) by simp
    next
      case mf: False
      have "decimal (n div 10) @ [48 + n mod 10] = decimal (m div 10) @ [48 + m mod 10]"
        using 1(2) False mf by (simp add: decimal.simps [of n] decimal.simps [of m])
      then have "decimal (n div 10) = decimal (m div 10)" and "n mod 10 = m mod 10" by simp_all
      then have "n div 10 = m div 10" using 1(1) [OF False] by simp
      with \<open>n mod 10 = m mod 10\<close> show ?thesis by (metis div_mult_mod_eq)
    qed
  qed
qed

lemma suffixed_inj: "suffixed base i = suffixed base j \<Longrightarrow> i = j"
  by (simp add: suffixed_def decimal_inj)

lemma length_filter_mono:
  "(\<And>x. x \<in> set xs \<Longrightarrow> Q x \<Longrightarrow> R x) \<Longrightarrow> length (filter Q xs) \<le> length (filter R xs)"
  by (induction xs) auto

lemma length_filter_strict:
  "(\<And>x. x \<in> set xs \<Longrightarrow> Q x \<Longrightarrow> R x) \<Longrightarrow> y \<in> set xs \<Longrightarrow> R y \<Longrightarrow> \<not> Q y \<Longrightarrow>
   length (filter Q xs) < length (filter R xs)"
proof (induction xs)
  case Nil then show ?case by simp
next
  case (Cons a xs)
  show ?case
  proof (cases "y = a")
    case True
    have "length (filter Q xs) \<le> length (filter R xs)"
      using Cons.prems(1) by (intro length_filter_mono) auto
    then show ?thesis using True Cons.prems by simp
  next
    case False
    then have "length (filter Q xs) < length (filter R xs)"
      using Cons by auto
    then show ?thesis using Cons.prems(1) [of a] by auto
  qed
qed

lemma blocking_mono: "blocking store self base (Suc i) \<le> blocking store self base i"
  unfolding blocking_def by (rule length_filter_mono) (auto intro: Suc_leD)

lemma blocking_less:
  assumes "slugExists store (suffixed base i) self"
  shows "blocking store self base (Suc i) < blocking store self base i"
proof -
  obtain d where d: "d \<in> set store" "slug d = Some (suffixed base i)" "doc_id d \<noteq> self"
    using assms by (auto simp: slugExists_def list_ex_iff)
  show ?thesis
    unfolding blocking_def
  proof (rule length_filter_strict [where y = d])
    show "d \<in> set store" by fact
    show "doc_id d \<noteq> self \<and> (\<exists>j\<ge>i. slug d = Some (suffixed base j))" using d by auto
    show "\<not> (doc_id d \<noteq> self \<and> (\<exists>j\<ge>Suc i. slug d = Some (suffixed base j)))"
      using d(2) by (auto dest: suffixed_inj)
  qed (auto intro: Suc_leD)
qed

termination uniqueSlugLoop
proof (relation "measure (\<lambda>(store, self, base, candidate, i).
          2 * blocking store self base i + (if slugExists store candidate self then 1 else 0))")
  show "wf (measure (\<lambda>(store :: 'a document list, self, base, candidate, i).
          2 * blocking store self base i + (if slugExists store candidate self then 1 else 0)))"
    by simp
next
  fix store :: "'a document list" and self base candidate i
  assume "slugExists store candidate self"
  then show "((store, self, base, suffixed base i, Suc i), (store, self, base, candidate, i))
        \<in> measure (\<lambda>(store, self, base, candidate, i).
          2 * blocking store self base i + (if slugExists store candidate self then 1 else 0))"
    using blocking_less [of store base i self] blocking_mono [of store self base i]
    by auto
qed

declare uniqueSlugLoop.simps [simp del]

section \<open>Claims about slugify and the locale resolver\<close>

text \<open>
  C5: \<open>slugify\<close> is idempotent: applying it to its own output gives that output
  again, on a platform whose NFKD and lower-casing leave \<open>[a-z0-9-]\<close> text alone.
  It is a total function, and its output contains only \<open>[a-z0-9]\<close> and hyphens, no
  two hyphens in a row, and no hyphen at the start or at the end.
\<close>

theorem slugify_idempotent:
  "(platformOk P \<longrightarrow> slugify P (slugify P x) = slugify P x) \<and>
   slugChars (slugify P x) \<and> singleHyphens (slugify P x) \<and> noEdgeHyphen (slugify P x)"
  using slugify_fixpoint [OF _ slugify_shape, of P P x] slugify_shape [of P x]
  by (simp add: slugShaped_def)

lemmas slug_eval =
  slugify_def asciiPlatform_def js_def stripMarks_def trim_def isWhiteSpace_def isAlnum_def
  isCombiningMark_def stripEdgeHyphens_def hyphen_def

lemma slugify_example:
  "slugify asciiPlatform (js ''Caramel Macchiato'') = js ''caramel-macchiato''"
  by (simp add: slug_eval)

text \<open>C5 at the input \<open>Caramel Macchiato\<close>.\<close>

theorem slugify_idempotent_witness:
  "platformOk asciiPlatform \<and>
   slugify asciiPlatform (slugify asciiPlatform (js ''Caramel Macchiato'')) = js ''caramel-macchiato'' \<and>
   slugChars (js ''caramel-macchiato'')"
  using slugify_idempotent [of asciiPlatform "js ''Caramel Macchiato''"] asciiPlatform_ok
  by (simp add: slugify_example)

lemma setAdd_distinct: "distinct acc \<Longrightarrow> distinct (setAdd acc x)"
  by (simp add: setAdd_def)

lemma foldl_setAdd_distinct: "distinct acc \<Longrightarrow> distinct (foldl setAdd acc xs)"
  by (induction xs arbitrary: acc) (simp_all add: setAdd_distinct)

lemma foldl_setAdd_set: "set (foldl setAdd acc xs) = set acc \<union> set xs"
  by (induction xs arbitrary: acc) (auto simp: setAdd_def)

lemma keepFirst_set: "set (keepFirst xs) = set xs"
  by (induction xs rule: keepFirst.induct) auto

lemma foldl_setAdd_keepFirst:
  "distinct acc \<Longrightarrow> foldl setAdd acc xs = acc @ keepFirst (filter (\<lambda>y. y \<notin> set acc) xs)"
proof (induction xs arbitrary: acc)
  case Nil then show ?case by simp
next
  case (Cons x xs)
  show ?case
  proof (cases "x \<in> set acc")
    case True
    then show ?thesis using Cons by (simp add: setAdd_def)
  next
    case False
    have "filter (\<lambda>y. y \<notin> set (acc @ [x])) xs = filter (\<lambda>y. y \<noteq> x) (filter (\<lambda>y. y \<notin> set acc) xs)"
      by (induction xs) auto
    then show ?thesis
      using False Cons.IH [of "acc @ [x]"] Cons.prems by (simp add: setAdd_def)
  qed
qed

lemma arrayFromSet_keepFirst: "arrayFromSet xs = keepFirst xs"
  using foldl_setAdd_keepFirst [of "[]" xs] by (simp add: arrayFromSet_def)

lemma nonBlankString_Some: "nonBlankString v = Some s \<Longrightarrow> v = Str s \<and> trim s \<noteq> []"
  by (cases v) (auto split: if_splits)

text \<open>
  C7: for every requested locale, absent or not, \<open>buildLocalePriority\<close> returns the
  sequence built from the requested locale, \<open>en\<close>, the default locale and \<open>vi\<close>
  in that precedence, without the blank entries and with only the first of equal entries
  kept; the result has no duplicates and no blank entry.
\<close>

theorem buildLocalePriority_chain:
  "buildLocalePriority DEFAULT_LOCALE locale = priorityChainSpec DEFAULT_LOCALE locale \<and>
   distinct (buildLocalePriority DEFAULT_LOCALE locale) \<and>
   (\<forall>l \<in> set (buildLocalePriority DEFAULT_LOCALE locale). trim l \<noteq> [])"
proof -
  let ?c = "List.map_filter nonBlankString [locale, Str (js ''en''), Str DEFAULT_LOCALE, Str (js ''vi'')]"
  have "\<forall>l \<in> set ?c. trim l \<noteq> []"
    by (auto simp: List.map_filter_def dest: nonBlankString_Some)
  moreover have "set (buildLocalePriority DEFAULT_LOCALE locale) = set ?c"
    unfolding buildLocalePriority_def arrayFromSet_def foldl_setAdd_set by simp
  moreover have "distinct (buildLocalePriority DEFAULT_LOCALE locale)"
    unfolding buildLocalePriority_def arrayFromSet_def by (rule foldl_setAdd_distinct) simp
  ultimately show ?thesis
    by (simp only: buildLocalePriority_def priorityChainSpec_def arrayFromSet_keepFirst simp_thms)
qed


lemmas text_eval = js_def trim_def isWhiteSpace_def

text \<open>C7 at the requested locale \<open>fr\<close> with the default locale \<open>en\<close>.\<close>

theorem buildLocalePriority_chain_witness:
  "buildLocalePriority (js ''en'') (Str (js ''fr'')) = [js ''fr'', js ''en'', js ''vi''] \<and>
   distinct [js ''fr'', js ''en'', js ''vi''] \<and>
   trim (js ''fr'') \<noteq> [] \<and> trim (js ''en'') \<noteq> [] \<and> trim (js ''vi'') \<noteq> []"
proof -
  have "priorityChainSpec (js ''en'') (Str (js ''fr'')) = [js ''fr'', js ''en'', js ''vi'']"
    by (simp add: priorityChainSpec_def List.map_filter_def text_eval)
  then show ?thesis
    using buildLocalePriority_chain [of "js ''en''" "Str (js ''fr'')"] by (simp add: text_eval)
qed


lemma nonBlankString_hasText:
  "nonBlankString (getProp v loc) = (if hasText v loc then Some (case getProp v loc of Str s \<Rightarrow> s | _ \<Rightarrow> []) else None)"
  by (cases "getProp v loc") (auto simp: hasText_def)

lemma pickFromLocales_find:
  "pickFromLocales v locales =
     (case find (hasText v) locales of Some loc \<Rightarrow> getProp v loc | None \<Rightarrow> Undefined)"
proof (induction locales)
  case Nil show ?case by simp
next
  case (Cons loc locales)
  show ?case
  proof (cases "hasText v loc")
    case True
    then obtain s where "getProp v loc = Str s" "trim s \<noteq> []"
      by (auto simp: hasText_def split: jsval.splits)
    then show ?thesis using True by simp
  next
    case False
    then have "nonBlankString (getProp v loc) = None" by (simp add: nonBlankString_hasText)
    then show ?thesis using False Cons by simp
  qed
qed

lemma hasText_none:
  "\<not> hasText Undefined loc" "\<not> hasText Null loc" "\<not> hasText (Bool b) loc"
  "\<not> hasText (Num n) loc" "\<not> hasText NaN loc"
  by (simp_all add: hasText_def)

text \<open>
  C6, amended: a plain string is returned unchanged unless it is empty, and the empty
  string gives \<open>undefined\<close>; any other value gives, verbatim, its value at the first
  locale of the chain where it has a string with text left after trimming, and
  \<open>undefined\<close> when the chain has no such locale.
\<close>

theorem pickLocalizedValue_first:
  "pickLocalizedValue v locales =
     (case v of
        Str s \<Rightarrow> if s = [] then Undefined else Str s
      | _ \<Rightarrow> (case find (hasText v) locales of Some loc \<Rightarrow> getProp v loc | None \<Rightarrow> Undefined))"
proof (cases v)
  case (Obj m)
  have "pickLocalizedValue (Obj m) locales =
      (case find (hasText (Obj m)) locales of Some loc \<Rightarrow> getProp (Obj m) loc | None \<Rightarrow> Undefined)"
    by (simp add: pickLocalizedValue_def pickFromLocales_find)
  then show ?thesis unfolding Obj by simp
next
  case (Arr xs)
  have "pickLocalizedValue (Arr xs) locales =
      (case find (hasText (Arr xs)) locales of Some loc \<Rightarrow> getProp (Arr xs) loc | None \<Rightarrow> Undefined)"
    by (simp add: pickLocalizedValue_def pickFromLocales_find)
  then show ?thesis unfolding Arr by simp
next
  case (Str s)
  then show ?thesis by (simp add: pickLocalizedValue_def)
qed (simp_all add: pickLocalizedValue_def pickFromLocales_find hasText_none find_None_iff
        split: option.splits)

text \<open>
  C6 as stated fails for the plain string that is empty: it is not returned unchanged.
\<close>

theorem pickLocalizedValue_empty_string: "pickLocalizedValue (Str []) [js ''en''] \<noteq> Str []"
  by (simp add: pickLocalizedValue_def)

lemma trim_Nil: "trim [] = []"
  by (simp add: trim_def)

lemma pickFromLocales_result:
  "pickFromLocales v locales = Undefined \<or> (\<exists>s. pickFromLocales v locales = Str s \<and> s \<noteq> [])"
proof (induction locales)
  case Nil show ?case by simp
next
  case (Cons loc locales)
  show ?case
  proof (cases "nonBlankString (getProp v loc)")
    case None with Cons show ?thesis by simp
  next
    case (Some s)
    then have "trim s \<noteq> []" by (auto dest: nonBlankString_Some)
    then have "s \<noteq> []" using trim_Nil by auto
    with Some show ?thesis by simp
  qed
qed

lemma pickLocalizedValue_result:
  "pickLocalizedValue v locales = Undefined \<or> truthy (pickLocalizedValue v locales)"
  using pickFromLocales_result [of v locales]
  by (cases v) (auto simp: pickLocalizedValue_def)

lemma jsOr_pick:
  "jsOr (pickLocalizedValue v locales) b =
     (if pickLocalizedValue v locales \<noteq> Undefined then pickLocalizedValue v locales else b)"
  using pickLocalizedValue_result [of v locales] by (auto simp: jsOr_def)

lemma js_neq_meta: "js ''metaTitle'' \<noteq> js ''metaDescription''"
  by (simp add: js_def)

text \<open>
  C8: for every document and locale, \<open>attachMetaFields\<close> sets \<open>metaTitle\<close> to the
  first that resolves of the \<open>seoTitle\<close> and the \<open>name\<close> bundle, and
  \<open>metaDescription\<close> to the first that resolves of the \<open>seoDescription\<close>, the
  \<open>shortDescription\<close> and the \<open>description\<close> bundle, each resolved along the
  priority chain; a meta field is \<open>undefined\<close> when none resolves, and every other
  field of the document is unchanged.
\<close>

theorem attachMetaFields_meta:
  "(let locales = buildLocalePriority DEFAULT_LOCALE locale;
        r = attachMetaFields DEFAULT_LOCALE product locale
    in getProp r (js ''metaTitle'') =
         firstResolved
           [pickLocalizedValue (getProp product (js ''seoTitle_i18n'')) locales,
            pickLocalizedValue (getProp product (js ''name_i18n'')) locales] \<and>
       getProp r (js ''metaDescription'') =
         firstResolved
           [pickLocalizedValue (getProp product (js ''seoDescription_i18n'')) locales,
            pickLocalizedValue (getProp product (js ''shortDescription_i18n'')) locales,
            pickLocalizedValue (getProp product (js ''description_i18n'')) locales] \<and>
       (\<forall>k. k \<noteq> js ''metaTitle'' \<and> k \<noteq> js ''metaDescription'' \<longrightarrow>
            ownProps r k = ownProps product k))"
proof -
  let ?L = "buildLocalePriority DEFAULT_LOCALE locale"
  let ?p = "\<lambda>f. pickLocalizedValue (getProp product f) ?L"
  have or1: "jsOr (?p (js ''seoTitle_i18n'')) (?p (js ''name_i18n'')) =
      firstResolved [?p (js ''seoTitle_i18n''), ?p (js ''name_i18n'')]"
    by (simp add: jsOr_pick)
  have or2: "jsOr (jsOr (?p (js ''seoDescription_i18n'')) (?p (js ''shortDescription_i18n'')))
                (?p (js ''description_i18n'')) =
      firstResolved [?p (js ''seoDescription_i18n''), ?p (js ''shortDescription_i18n''),
                     ?p (js ''description_i18n'')]"
    using pickLocalizedValue_result [of "getProp product (js ''seoDescription_i18n'')" ?L]
      pickLocalizedValue_result [of "getProp product (js ''shortDescription_i18n'')" ?L]
    by (auto simp: jsOr_def)
  show ?thesis
    unfolding Let_def attachMetaFields_def or1 or2
    using js_neq_meta by simp
qed

text \<open>
  C8 at a product with a Vietnamese name only and a price, for the locale \<open>en\<close>:
  the title falls through to \<open>vi\<close>, the description is absent, the price stays.
\<close>

theorem attachMetaFields_meta_witness:
  "getProp (attachMetaFields (js ''vi'')
       (Obj [js ''name_i18n'' \<mapsto> Obj [js ''vi'' \<mapsto> Str (js ''Ca phe'')], js ''price'' \<mapsto> Num 3])
       (Str (js ''en''))) (js ''metaTitle'') = Str (js ''Ca phe'') \<and>
   getProp (attachMetaFields (js ''vi'')
       (Obj [js ''name_i18n'' \<mapsto> Obj [js ''vi'' \<mapsto> Str (js ''Ca phe'')], js ''price'' \<mapsto> Num 3])
       (Str (js ''en''))) (js ''metaDescription'') = Undefined \<and>
   ownProps (attachMetaFields (js ''vi'')
       (Obj [js ''name_i18n'' \<mapsto> Obj [js ''vi'' \<mapsto> Str (js ''Ca phe'')], js ''price'' \<mapsto> Num 3])
       (Str (js ''en''))) (js ''price'') = Some (Num 3)"
proof -
  let ?prod = "Obj [js ''name_i18n'' \<mapsto> Obj [js ''vi'' \<mapsto> Str (js ''Ca phe'')], js ''price'' \<mapsto> Num 3]"
  let ?L = "buildLocalePriority (js ''vi'') (Str (js ''en''))"
  note m = attachMetaFields_meta [of "js ''vi''" "Str (js ''en'')" ?prod, unfolded Let_def]
  have L: "?L = [js ''en'', js ''vi'']"
    by (simp add: buildLocalePriority_def arrayFromSet_def setAdd_def List.map_filter_def text_eval)
  have t: "firstResolved
           [pickLocalizedValue (getProp ?prod (js ''seoTitle_i18n'')) ?L,
            pickLocalizedValue (getProp ?prod (js ''name_i18n'')) ?L] = Str (js ''Ca phe'')"
    unfolding L by (simp add: pickLocalizedValue_def text_eval)
  have d: "firstResolved
           [pickLocalizedValue (getProp ?prod (js ''seoDescription_i18n'')) ?L,
            pickLocalizedValue (getProp ?prod (js ''shortDescription_i18n'')) ?L,
            pickLocalizedValue (getProp ?prod (js ''description_i18n'')) ?L] = Undefined"
    unfolding L by (simp add: pickLocalizedValue_def text_eval)
  have k: "js ''price'' \<noteq> js ''metaTitle'' \<and> js ''price'' \<noteq> js ''metaDescription''"
    by (simp add: js_def)
  have "ownProps (attachMetaFields (js ''vi'') ?prod (Str (js ''en''))) (js ''price'') =
        ownProps ?prod (js ''price'')"
    using m k by blast
  moreover have "ownProps ?prod (js ''price'') = Some (Num 3)" by simp
  ultimately show ?thesis using m t d by simp
qed

text \<open>C6, amended, at the bundle with a Vietnamese text only and the chain \<open>en\<close>, \<open>vi\<close>.\<close>

theorem pickLocalizedValue_first_witness:
  "pickLocalizedValue (Obj [js ''vi'' \<mapsto> Str (js ''Ca phe'')]) [js ''en'', js ''vi''] = Str (js ''Ca phe'')"
  using pickLocalizedValue_first [of "Obj [js ''vi'' \<mapsto> Str (js ''Ca phe'')]" "[js ''en'', js ''vi'']"]
  by (simp add: hasText_def text_eval)

section \<open>Claims about the unique slug\<close>

lemma uniqueSlugLoop_free:
  "\<not> slugExists store (uniqueSlugLoop store self base candidate i) self"
  by (induction store self base candidate i rule: uniqueSlugLoop.induct)
     (simp add: uniqueSlugLoop.simps)

lemma uniqueSlugLoop_first:
  "\<not> slugExists store candidate self \<Longrightarrow> uniqueSlugLoop store self base candidate i = candidate"
  by (simp add: uniqueSlugLoop.simps)


lemma uniqueSlugLoop_range:
  "uniqueSlugLoop store self base candidate i = candidate \<or>
   (\<exists>n\<ge>i. uniqueSlugLoop store self base candidate i = suffixed base n)"
proof (induction store self base candidate i rule: uniqueSlugLoop.induct)
  case (1 store self base candidate i)
  show ?case
  proof (cases "slugExists store candidate self")
    case True
    then have "uniqueSlugLoop store self base candidate i =
        uniqueSlugLoop store self base (suffixed base i) (Suc i)"
      by (simp add: uniqueSlugLoop.simps [of store self base candidate])
    moreover have "uniqueSlugLoop store self base (suffixed base i) (Suc i) = suffixed base i \<or>
        (\<exists>n\<ge>Suc i. uniqueSlugLoop store self base (suffixed base i) (Suc i) = suffixed base n)"
      using 1 True by simp
    ultimately show ?thesis by (metis Suc_leD order_refl)
  next
    case False
    then show ?thesis by (simp add: uniqueSlugLoop_first)
  qed
qed


lemmas store_eval = slugExists_def baseInput_def nameBase_def nameIn_def orElse_def suffixed_def




text \<open>
  In general: with an empty base and the slug \<open>product\<close> taken, the result is a
  bare suffix.
\<close>

lemma ensureUniqueSlug_empty_base_taken:
  assumes "slugify P (baseInput DEFAULT_LOCALE doc) = []"
    and "slugExists store (js ''product'') (doc_id doc)"
  shows "\<exists>n\<ge>2. slug (ensureUniqueSlug P DEFAULT_LOCALE store doc) = Some (suffixed [] n)"
proof -
  let ?r = "uniqueSlugLoop store (doc_id doc) [] (js ''product'') 2"
  have "?r \<noteq> js ''product''"
    using uniqueSlugLoop_free [of store "doc_id doc" "[]" "js ''product''" 2] assms(2) by auto
  then have "\<exists>n\<ge>2. ?r = suffixed [] n"
    using uniqueSlugLoop_range [of store "doc_id doc" "[]" "js ''product''" 2] by simp
  then show ?thesis by (simp add: ensureUniqueSlug_def Let_def assms(1))
qed

text \<open>
  Within \<open>save\<close> the empty base does not reach \<open>ensureUniqueSlug\<close>: the validate
  hook leaves the empty slug, and the required validator refuses it.
\<close>

lemma save_symbols_only:
  "save asciiPlatform (js ''vi'') (\<lambda>r. True) ([] :: unit document list)
     \<lparr>slug = None, name_i18n = Some [js ''en'' \<mapsto> js ''!!!''], category = None,
      rest = Map.empty, doc_id = 1, isNew = True, slugModified = False\<rparr> =
   (Inl ValidationError, [])"
proof -
  let ?doc = "\<lparr>slug = None, name_i18n = Some [js ''en'' \<mapsto> js ''!!!''], category = None,
      rest = (Map.empty :: jsstring \<Rightarrow> unit option), doc_id = 1, isNew = True, slugModified = False\<rparr>"
  have nb: "nameBase (js ''vi'') ?doc (js ''product'') = js ''!!!''"
    by (simp add: store_eval js_def)
  have "slugify asciiPlatform (nameBase (js ''vi'') ?doc (js ''product'')) = []"
    unfolding nb by (simp add: slug_eval)
  then have "slug (preValidate asciiPlatform (js ''vi'') ?doc) = Some []"
    unfolding preValidate_def by (simp add: setSlug_def)
  then show ?thesis by (simp add: save_def Let_def schemaValid_def)
qed

section \<open>Claims about the unique name\<close>

lemma ensureUniqueName_iff:
  "ensureUniqueName store cat name excludeId =
     (if nameConflict store cat name excludeId then Inl PRODUCT_NAME_DUPLICATE else Inr ())"
proof (cases name)
  case None
  then show ?thesis by (simp add: ensureUniqueName_def nameConflict_def)
next
  case (Some n)
  have ex: "(case excludeId of Some x \<Rightarrow> doc_id d \<noteq> x | None \<Rightarrow> True) \<longleftrightarrow> excludeId \<noteq> Some (doc_id d)"
    for d :: "'a document"
    by (cases excludeId) auto
  show ?thesis
    unfolding ensureUniqueName_def nameConflict_def Some
    by (auto simp: ex list_ex_iff nameClause_def)
qed

lemma save_error: "fst (save P DEFAULT_LOCALE restValid store doc) \<noteq> Inl PRODUCT_NAME_DUPLICATE"
  by (simp add: save_def Let_def)

lemma create_iff:
  "create P DEFAULT_LOCALE restValid store newId data =
     (if nameConflict store (Some (orElse (category data) (js ''coffee''))) (name_i18n data) None
      then (Inl PRODUCT_NAME_DUPLICATE, store)
      else save P DEFAULT_LOCALE restValid store
             (newDocument P newId data (orElse (category data) (js ''coffee''))))"
  by (simp add: create_def Let_def ensureUniqueName_iff)

text \<open>
  C2, amended: \<open>ensureUniqueName\<close> signals \<open>PRODUCT_NAME_DUPLICATE\<close> exactly when
  the category is given and another document has that category and the same non-empty
  name at \<open>vi\<close> or at \<open>en\<close>; names under other locale keys are not compared.
  Otherwise it does nothing, in particular when the category or the name is absent and
  when no document has the category. \<open>create\<close> is rejected with that error exactly
  when the check finds the conflict, and then the collection is unchanged.
\<close>

theorem ensureUniqueName_rejects:
  "(ensureUniqueName store cat name excludeId = Inl PRODUCT_NAME_DUPLICATE \<longleftrightarrow>
      nameConflict store cat name excludeId) \<and>
   (\<not> nameConflict store cat name excludeId \<longrightarrow> ensureUniqueName store cat name excludeId = Inr ()) \<and>
   (\<not> truthyStr cat \<or> name = None \<longrightarrow> ensureUniqueName store cat name excludeId = Inr ()) \<and>
   ((\<forall>d \<in> set store. category d \<noteq> cat) \<longrightarrow> ensureUniqueName store cat name excludeId = Inr ()) \<and>
   (fst (create P DEFAULT_LOCALE restValid store newId data) = Inl PRODUCT_NAME_DUPLICATE \<longleftrightarrow>
      nameConflict store (Some (orElse (category data) (js ''coffee''))) (name_i18n data) None) \<and>
   (fst (create P DEFAULT_LOCALE restValid store newId data) = Inl PRODUCT_NAME_DUPLICATE \<longrightarrow>
      snd (create P DEFAULT_LOCALE restValid store newId data) = store)"
proof -
  have a: "\<not> truthyStr cat \<or> name = None \<Longrightarrow> \<not> nameConflict store cat name excludeId"
    by (auto simp: nameConflict_def)
  have b: "\<forall>d \<in> set store. category d \<noteq> cat \<Longrightarrow> \<not> nameConflict store cat name excludeId"
    by (auto simp: nameConflict_def list_ex_iff split: option.splits)
  show ?thesis
    using a b save_error [of P DEFAULT_LOCALE restValid store]
    by (auto simp: ensureUniqueName_iff create_iff)
qed

text \<open>
  C10: for every category and every name bundle with neither a \<open>vi\<close> nor an \<open>en\<close>
  entry, the name check raises no conflict, whatever the collection holds, and
  \<open>create\<close> goes on to save the new document.
\<close>

theorem ensureUniqueName_no_vi_en:
  "n (js ''vi'') = None \<Longrightarrow> n (js ''en'') = None \<Longrightarrow>
   ensureUniqueName store cat (Some n) excludeId = Inr () \<and>
   (name_i18n data = Some n \<longrightarrow>
      create P DEFAULT_LOCALE restValid store newId data =
        save P DEFAULT_LOCALE restValid store
          (newDocument P newId data (orElse (category data) (js ''coffee''))))"
  by (simp add: ensureUniqueName_def create_def Let_def truthyStr_def)

lemmas name_eval = nameConflict_def truthyStr_def nameIn_def orElse_def

text \<open>
  C2, amended, at a collection with one coffee named \<open>Latte\<close> in English: the same
  English name is rejected for a coffee and the collection stays as it was, is allowed
  for a tea, and is not checked without a category.
\<close>

theorem ensureUniqueName_rejects_witness:
  "ensureUniqueName [exLatte] (Some (js ''coffee'')) (Some [js ''en'' \<mapsto> js ''Latte'']) None =
     Inl PRODUCT_NAME_DUPLICATE \<and>
   ensureUniqueName [exLatte] (Some (js ''tea'')) (Some [js ''en'' \<mapsto> js ''Latte'']) None = Inr () \<and>
   ensureUniqueName [exLatte] None (Some [js ''en'' \<mapsto> js ''Latte'']) None = Inr () \<and>
   create asciiPlatform (js ''vi'') (\<lambda>r. True) [exLatte] 2
     \<lparr> slug = None, name_i18n = Some [js ''en'' \<mapsto> js ''Latte''], category = None,
       rest = [js ''price'' \<mapsto> 5] \<rparr> = (Inl PRODUCT_NAME_DUPLICATE, [exLatte])"
proof -
  let ?n = "[js ''en'' \<mapsto> js ''Latte'']"
  let ?data = "\<lparr> slug = None, name_i18n = Some ?n, category = None, rest = [js ''price'' \<mapsto> (5::nat)] \<rparr>"
  have c: "nameConflict [exLatte] (Some (js ''coffee'')) (Some ?n) None"
    by (simp add: name_eval exLatte_def js_def)
  have t: "\<forall>d \<in> set [exLatte]. category d \<noteq> Some (js ''tea'')"
    by (simp add: exLatte_def js_def)
  have o: "orElse (category ?data) (js ''coffee'') = js ''coffee''"
    by (simp add: orElse_def)
  note r1 = ensureUniqueName_rejects [of "[exLatte]" "Some (js ''coffee'')" "Some ?n" None
      asciiPlatform "js ''vi''" "\<lambda>r. True" 2 ?data, unfolded o]
  note r2 = ensureUniqueName_rejects [of "[exLatte]" "Some (js ''tea'')" "Some ?n" None
      asciiPlatform "js ''vi''" "\<lambda>r. True" 2 ?data]
  note r3 = ensureUniqueName_rejects [of "[exLatte]" None "Some ?n" None
      asciiPlatform "js ''vi''" "\<lambda>r. True" 2 ?data]
  have 1: "ensureUniqueName [exLatte] (Some (js ''coffee'')) (Some ?n) None = Inl PRODUCT_NAME_DUPLICATE"
    using r1 c by blast
  have 2: "ensureUniqueName [exLatte] (Some (js ''tea'')) (Some ?n) None = Inr ()"
    using r2 t by blast
  have 3: "ensureUniqueName [exLatte] None (Some ?n) None = Inr ()"
    using r3 by (simp add: truthyStr_def)
  have "name_i18n ?data = Some ?n" by simp
  then have "fst (create asciiPlatform (js ''vi'') (\<lambda>r. True) [exLatte] 2 ?data) = Inl PRODUCT_NAME_DUPLICATE \<and>
        snd (create asciiPlatform (js ''vi'') (\<lambda>r. True) [exLatte] 2 ?data) = [exLatte]"
    using r1 c by simp
  then have 4: "create asciiPlatform (js ''vi'') (\<lambda>r. True) [exLatte] 2 ?data =
      (Inl PRODUCT_NAME_DUPLICATE, [exLatte])"
    by (simp add: prod_eq_iff)
  show ?thesis using 1 2 3 4 by simp
qed

text \<open>
  C2 as stated fails for a name under a third locale: a stored coffee has the same
  French name as the new one, so another document shares the category and matches the
  name in one locale, and the check raises no conflict and \<open>create\<close> is not rejected
  with it.
\<close>

theorem ensureUniqueName_third_locale:
  "category exCafe = Some (js ''coffee'') \<and>
   nameIn exCafe (js ''fr'') = Some (js ''Cafe'') \<and>
   [js ''en'' \<mapsto> js ''Coffee'', js ''fr'' \<mapsto> js ''Cafe''] (js ''fr'') = Some (js ''Cafe'') \<and>
   ensureUniqueName [exCafe] (Some (js ''coffee''))
     (Some [js ''en'' \<mapsto> js ''Coffee'', js ''fr'' \<mapsto> js ''Cafe'']) None = Inr () \<and>
   fst (create asciiPlatform (js ''vi'') (\<lambda>r. True) [exCafe] 2
         \<lparr> slug = None, name_i18n = Some [js ''en'' \<mapsto> js ''Coffee'', js ''fr'' \<mapsto> js ''Cafe''],
           category = Some (js ''coffee''), rest = [js ''price'' \<mapsto> 5] \<rparr>)
     \<noteq> Inl PRODUCT_NAME_DUPLICATE"
proof -
  let ?n = "[js ''en'' \<mapsto> js ''Coffee'', js ''fr'' \<mapsto> js ''Cafe'']"
  have c: "\<not> nameConflict [exCafe] (Some (js ''coffee'')) (Some ?n) None"
    by (simp add: name_eval exCafe_def js_def)
  have f: "nameIn exCafe (js ''fr'') = Some (js ''Cafe'')" "?n (js ''fr'') = Some (js ''Cafe'')"
    by (simp_all add: nameIn_def exCafe_def js_def)
  have k: "category exCafe = Some (js ''coffee'')" by (simp add: exCafe_def)
  have u: "ensureUniqueName [exCafe] (Some (js ''coffee'')) (Some ?n) None = Inr ()"
    using c by (simp add: ensureUniqueName_iff)
  have "create asciiPlatform (js ''vi'') (\<lambda>r. True) [exCafe] 2
         \<lparr> slug = None, name_i18n = Some ?n, category = Some (js ''coffee''),
           rest = [js ''price'' \<mapsto> 5] \<rparr> =
        save asciiPlatform (js ''vi'') (\<lambda>r. True) [exCafe]
          (newDocument asciiPlatform 2
             \<lparr> slug = None, name_i18n = Some ?n, category = Some (js ''coffee''),
               rest = [js ''price'' \<mapsto> 5] \<rparr> (js ''coffee''))"
    using c by (simp add: create_iff orElse_def)
  then have r: "fst (create asciiPlatform (js ''vi'') (\<lambda>r. True) [exCafe] 2
         \<lparr> slug = None, name_i18n = Some ?n, category = Some (js ''coffee''),
           rest = [js ''price'' \<mapsto> 5] \<rparr>) \<noteq> Inl PRODUCT_NAME_DUPLICATE"
    by (simp only: save_error not_False_eq_True)
  show ?thesis by (intro conjI) (fact k f u r)+
qed

text \<open>C10 at a French name only, with a stored coffee of the same French name.\<close>

theorem ensureUniqueName_no_vi_en_witness:
  "[js ''fr'' \<mapsto> js ''Cafe''] (js ''vi'') = None \<and> [js ''fr'' \<mapsto> js ''Cafe''] (js ''en'') = None \<and>
   ensureUniqueName [exCafe] (Some (js ''coffee'')) (Some [js ''fr'' \<mapsto> js ''Cafe'']) None = Inr () \<and>
   create asciiPlatform (js ''vi'') (\<lambda>r. True) [exCafe] 2
     \<lparr> slug = None, name_i18n = Some [js ''fr'' \<mapsto> js ''Cafe''],
       category = Some (js ''coffee''), rest = [js ''price'' \<mapsto> 5] \<rparr> =
   save asciiPlatform (js ''vi'') (\<lambda>r. True) [exCafe]
     (newDocument asciiPlatform 2
        \<lparr> slug = None, name_i18n = Some [js ''fr'' \<mapsto> js ''Cafe''],
          category = Some (js ''coffee''), rest = [js ''price'' \<mapsto> 5] \<rparr> (js ''coffee''))"
proof -
  let ?n = "[js ''fr'' \<mapsto> js ''Cafe'']"
  let ?data = "\<lparr> slug = None, name_i18n = Some ?n, category = Some (js ''coffee''),
      rest = [js ''price'' \<mapsto> (5::nat)] \<rparr>"
  have v: "?n (js ''vi'') = None" and e: "?n (js ''en'') = None" by (simp_all add: js_def)
  have o: "orElse (category ?data) (js ''coffee'') = js ''coffee''"
    by (simp add: orElse_def)
  note r = ensureUniqueName_no_vi_en [OF v e, of "[exCafe]" "Some (js ''coffee'')" None ?data
      asciiPlatform "js ''vi''" "\<lambda>r. True" 2, unfolded o]
  have nm: "name_i18n ?data = Some ?n" by simp
  have a: "ensureUniqueName [exCafe] (Some (js ''coffee'')) (Some ?n) None = Inr ()"
    by (rule r [THEN conjunct1])
  have b: "create asciiPlatform (js ''vi'') (\<lambda>r. True) [exCafe] 2 ?data =
      save asciiPlatform (js ''vi'') (\<lambda>r. True) [exCafe] (newDocument asciiPlatform 2 ?data (js ''coffee''))"
    by (rule r [THEN conjunct2, THEN mp, OF nm])
  show ?thesis by (intro conjI) (fact v e a b)+
qed



section \<open>Claims about updates\<close>

lemma decimal_digits: "\<forall>c \<in> set (decimal n). 48 \<le> c \<and> c \<le> 57"
proof (induction n rule: decimal.induct)
  case (1 n)
  show ?case
  proof (cases "n < 10")
    case True then show ?thesis by (simp add: decimal.simps)
  next
    case False
    then have "decimal n = decimal (n div 10) @ [48 + n mod 10]" by (simp add: decimal.simps [of n])
    moreover have "n mod 10 < 10" by simp
    ultimately show ?thesis using 1 [OF False] by auto
  qed
qed

lemma singleHyphens_append:
  "singleHyphens s \<Longrightarrow> singleHyphens t \<Longrightarrow> s = [] \<or> t = [] \<or> \<not> (last s = hyphen \<and> hd t = hyphen) \<Longrightarrow>
   singleHyphens (s @ t)"
proof (induction s)
  case Nil then show ?case by simp
next
  case (Cons c s)
  show ?case
  proof (cases "s = []")
    case True
    with Cons.prems show ?thesis by (cases t) (auto simp: singleHyphens_Cons)
  next
    case False
    with Cons show ?thesis by (auto simp: singleHyphens_Cons)
  qed
qed

lemma no_hyphen_single: "\<forall>c \<in> set s. c \<noteq> hyphen \<Longrightarrow> singleHyphens s"
  by (induction s rule: singleHyphens.induct) auto

lemma suffixed_shape:
  assumes "slugShaped s" "s \<noteq> []"
  shows "slugShaped (suffixed s n) \<and> suffixed s n \<noteq> []"
proof -
  have dg: "\<forall>c \<in> set (decimal n). isAlnum c \<and> c \<noteq> hyphen"
    using decimal_digits [of n] by (auto simp: isAlnum_def hyphen_def)
  have ne: "decimal n \<noteq> []" by (rule decimal_nonempty)
  have c: "slugChars (suffixed s n)"
    using assms(1) dg by (auto simp: slugShaped_def slugChars_def suffixed_def list_all_iff)
  have t: "singleHyphens (hyphen # decimal n)"
    using dg ne by (auto simp: singleHyphens_Cons no_hyphen_single)
  have "singleHyphens (s @ (hyphen # decimal n))"
  proof (rule singleHyphens_append)
    show "singleHyphens s" using assms(1) by (simp add: slugShaped_def)
    show "singleHyphens (hyphen # decimal n)" by (rule t)
    show "s = [] \<or> hyphen # decimal n = [] \<or> \<not> (last s = hyphen \<and> hd (hyphen # decimal n) = hyphen)"
      using assms by (auto simp: slugShaped_def noEdgeHyphen_def)
  qed
  then have h: "singleHyphens (suffixed s n)" by (simp add: suffixed_def)
  have "last (suffixed s n) = last (decimal n)" using ne by (simp add: suffixed_def)
  then have "last (suffixed s n) \<noteq> hyphen" using dg ne last_in_set by metis
  moreover have "hd (suffixed s n) = hd s" using assms(2) by (simp add: suffixed_def)
  ultimately have e: "noEdgeHyphen (suffixed s n)"
    using assms by (auto simp: slugShaped_def noEdgeHyphen_def)
  show ?thesis using c h e by (simp add: slugShaped_def suffixed_def)
qed

lemma setSlug_same: "slug d = Some v \<Longrightarrow> \<not> slugModified d \<Longrightarrow> setSlug v d = d"
  by (cases d) (simp add: setSlug_def)


lemma preValidate_ok:
  assumes "platformOk P" "slugOk d" "\<not> slugModified d"
  shows "preValidate P DEFAULT_LOCALE d = d"
proof -
  obtain s where s: "slug d = Some s" "s \<noteq> []" "slugShaped s"
    using assms(2) by (auto simp: slugOk_def split: option.splits)
  then show ?thesis
    using assms by (simp add: preValidate_def slugify_fixpoint setSlug_same)
qed





lemma update_store:
  assumes "findById store i = Some doc"
  shows "snd (update P DEFAULT_LOCALE restValid store i data) = store \<or>
         snd (update P DEFAULT_LOCALE restValid store i data) =
           snd (save P DEFAULT_LOCALE restValid store (updatedDoc P DEFAULT_LOCALE doc data))"
proof -
  let ?sv = "save P DEFAULT_LOCALE restValid store (updatedDoc P DEFAULT_LOCALE doc data)"
  obtain r st where sv: "?sv = (r, st)" by (cases ?sv)
  show ?thesis
    unfolding update_def assms
    by (cases r) (simp_all add: Let_def sv split: sum.splits)
qed


lemma ensureUniqueSlug_ok:
  assumes "platformOk P" "slugOk d"
  shows "slugOk (ensureUniqueSlug P DEFAULT_LOCALE store d)"
proof -
  obtain s where s: "slug d = Some s" "s \<noteq> []" "slugShaped s"
    using assms(2) by (auto simp: slugOk_def split: option.splits)
  have b: "slugify P (baseInput DEFAULT_LOCALE d) = s"
    using s assms(1) by (simp add: baseInput_def orElse_def slugify_fixpoint)
  let ?r = "uniqueSlugLoop store (doc_id d) s s 2"
  have "?r = s \<or> (\<exists>n\<ge>2. ?r = suffixed s n)"
    by (rule uniqueSlugLoop_range)
  then have "?r \<noteq> [] \<and> slugShaped ?r"
  proof
    assume "?r = s" then show ?thesis using s by simp
  next
    assume "\<exists>n\<ge>2. ?r = suffixed s n"
    then obtain n where "?r = suffixed s n" by blast
    then show ?thesis using suffixed_shape [OF s(3,2), of n] by simp
  qed
  then show ?thesis
    using s by (simp add: ensureUniqueSlug_def Let_def b slugOk_def)
qed

lemma preValidate_shape: "\<exists>x. slug (preValidate P DEFAULT_LOCALE d) = Some (slugify P x)"
  by (auto simp: preValidate_def setSlug_def split: option.splits)

lemma writeDoc_ok:
  assumes "storeOk store" "slugOk d"
  shows "storeOk (writeDoc store d)"
  using assms by (auto simp: storeOk_def writeDoc_def list_all_iff slugOk_def)

lemma save_storeOk:
  assumes "platformOk P" "storeOk store"
  shows "storeOk (snd (save P DEFAULT_LOCALE restValid store doc))"
proof -
  let ?d1 = "preValidate P DEFAULT_LOCALE doc"
  obtain x where x: "slug ?d1 = Some (slugify P x)" using preValidate_shape by blast
  have ok1: "slugOk ?d1" if "schemaValid restValid ?d1"
    using that x slugify_shape [of P x] by (simp add: schemaValid_def slugOk_def)
  have ok2: "slugOk (preSave P DEFAULT_LOCALE store ?d1)" if "schemaValid restValid ?d1"
    using ok1 [OF that] assms(1) by (simp add: preSave_def ensureUniqueSlug_ok)
  show ?thesis
    using assms(2) ok2 by (simp add: save_def Let_def writeDoc_ok)
qed

lemma create_storeOk:
  "platformOk P \<Longrightarrow> storeOk store \<Longrightarrow> storeOk (snd (create P DEFAULT_LOCALE restValid store newId data))"
  by (simp add: create_iff save_storeOk)

lemma update_storeOk:
  assumes "platformOk P" "storeOk store"
  shows "storeOk (snd (update P DEFAULT_LOCALE restValid store i data))"
proof (cases "findById store i")
  case None
  then show ?thesis using assms(2) by (simp add: update_def)
next
  case (Some doc)
  show ?thesis
    using update_store [OF Some, of P DEFAULT_LOCALE restValid data] assms(2) save_storeOk [OF assms]
    by auto
qed

lemma storeOk_empty: "storeOk []"
  by (simp add: storeOk_def)

lemma slugShaped_latte: "slugShaped (js ''latte'')"
  by (simp add: slugShaped_def slugChars_def noEdgeHyphen_def js_def isAlnum_def hyphen_def)



text \<open>That update is saved: the category and the price change, the slug does not.\<close>

lemma update_example:
  "update asciiPlatform (js ''vi'') (\<lambda>r. True) [exLatte] 1
               \<lparr> slug = None, name_i18n = None, category = Some (js ''tea''),
                 rest = [js ''price'' \<mapsto> 5] \<rparr> =
   (Inr (Some (exLatte\<lparr>category := Some (js ''tea''), rest := [js ''price'' \<mapsto> 5]\<rparr>)),
    [exLatte\<lparr>category := Some (js ''tea''), rest := [js ''price'' \<mapsto> 5]\<rparr>])"
proof -
  let ?data = "\<lparr> slug = None, name_i18n = None, category = Some (js ''tea''),
                 rest = [js ''price'' \<mapsto> (5::nat)] \<rparr>"
  let ?d = "exLatte\<lparr>category := Some (js ''tea''), rest := [js ''price'' \<mapsto> 5]\<rparr>"
  have f: "findById [exLatte] 1 = Some exLatte"
    by (simp add: findById_def exLatte_def)
  have u: "updatedDoc asciiPlatform (js ''vi'') exLatte ?data = ?d"
    by (simp add: updatedDoc_def hasSlugInBody_def assignData_def nameBase_def nameIn_def Let_def exLatte_def)
  have c: "\<not> nameConflict [exLatte] (Some (js ''tea'')) (Some [js ''en'' \<mapsto> js ''Latte'']) (Some 1)"
    by (simp add: nameConflict_def exLatte_def)
  have pv: "preValidate asciiPlatform (js ''vi'') ?d = ?d"
    using slugShaped_latte
    by (intro preValidate_ok asciiPlatform_ok) (simp_all add: slugOk_def exLatte_def, simp add: js_def)
  have sv: "schemaValid (\<lambda>r. True) ?d"
    by (simp add: schemaValid_def exLatte_def categories_def) (simp add: js_def)
  have sav: "save asciiPlatform (js ''vi'') (\<lambda>r. True) [exLatte] ?d = (Inr ?d, [?d])"
    unfolding save_def Let_def pv using sv
    by (simp add: preSave_def slugExists_def writeDoc_def exLatte_def orElse_def)
  show ?thesis
    unfolding update_def f by (simp add: Let_def u sav ensureUniqueName_iff truthyStr_def) (simp add: nameConflict_def exLatte_def js_def)
qed

section \<open>Claims about the response headers\<close>

lemma writeError_headers: "resHeaders (writeError fallback err) = []"
  by (simp add: writeError_def json_def status_def freshResponse_def)

lemma json_headers: "resHeaders (json v (status code freshResponse)) = []"
  by (simp add: json_def status_def freshResponse_def)

lemma createProduct_headers: "resHeaders (createProduct D req) = []"
proof (cases "case body req of Str s \<Rightarrow> jsonParse D s | b \<Rightarrow> Inr b")
  case (Inl err)
  then show ?thesis by (simp add: createProduct_def writeError_headers)
next
  case (Inr b)
  show ?thesis
    unfolding createProduct_def Inr
    by (cases "repoCreate D b") (simp_all add: writeError_headers json_headers)
qed

lemma updateProduct_headers: "resHeaders (updateProduct D req) = []"
proof -
  define b where "b = (case body req of
                 Str s \<Rightarrow> (case jsonParse D s of Inr v \<Rightarrow> v | Inl err \<Rightarrow> Str s)
               | v \<Rightarrow> v)"
  have f: "resHeaders (json v freshResponse) = []" for v
    by (simp add: json_def freshResponse_def)
  show ?thesis
    unfolding updateProduct_def Let_def b_def [symmetric]
    by (cases "repoUpdate D (getProp (params req) (js ''id'')) b")
       (simp_all add: writeError_headers json_headers f)
qed

lemma getProductBySlug_headers:
  "statusCode (getProductBySlug D req) = 200 \<Longrightarrow>
   resHeaders (getProductBySlug D req) = [(js ''Vary'', js ''Accept-Language'')]"
  by (auto simp: getProductBySlug_def Let_def json_def status_def setHeader_def freshResponse_def
      split: sum.splits if_splits)

lemma ex_locales:
  "buildLocalePriority (js ''vi'') (Str (js ''vi'')) = [js ''vi'', js ''en'']"
  "buildLocalePriority (js ''vi'') (Str (js ''en'')) = [js ''en'', js ''vi'']"
  by (simp_all add: buildLocalePriority_def arrayFromSet_def setAdd_def List.map_filter_def text_eval)

lemma ex_title:
  "getProp (attachMetaFields (js ''vi'') exMilkCoffee (Str (js ''vi''))) (js ''metaTitle'') = Str (js ''Ca phe sua'')"
  "getProp (attachMetaFields (js ''vi'') exMilkCoffee (Str (js ''en''))) (js ''metaTitle'') = Str (js ''Milk coffee'')"
  unfolding attachMetaFields_def Let_def ex_locales
  by (simp_all add: exMilkCoffee_def pickLocalizedValue_def jsOr_def text_eval)

lemma ex_create:
  "l \<noteq> [] \<Longrightarrow> createProduct exDeps (exRequest l) =
     \<lparr> statusCode = 201, resHeaders = [],
       sent = Some (attachMetaFields (js ''vi'') exMilkCoffee (Str l)) \<rparr>"
  by (simp add: createProduct_def exDeps_def exRequest_def exMilkCoffee_def priceInvalid_def
      temperatureOptionsInvalid_def requestLocale_def jsOr_def json_def status_def freshResponse_def)
     (simp add: js_def)

text \<open>
  C9 says that every handler whose response depends on the locale sets the header
  \<open>Vary: Accept-Language\<close>, the create and update handlers included. The code of
  \<open>createProduct\<close> and \<open>updateProduct\<close> sets no header: creating the same product
  for the locale \<open>vi\<close> and for the locale \<open>en\<close> answers 201 with different
  \<open>metaTitle\<close> values and without the header, while \<open>getProductBySlug\<close> sets it.
\<close>

theorem createProduct_no_vary:
  "statusCode (createProduct exDeps (exRequest (js ''vi''))) = 201 \<and>
   resHeaders (createProduct exDeps (exRequest (js ''vi''))) = [] \<and>
   map_option (\<lambda>v. getProp v (js ''metaTitle'')) (sent (createProduct exDeps (exRequest (js ''vi'')))) =
     Some (Str (js ''Ca phe sua'')) \<and>
   statusCode (createProduct exDeps (exRequest (js ''en''))) = 201 \<and>
   resHeaders (createProduct exDeps (exRequest (js ''en''))) = [] \<and>
   map_option (\<lambda>v. getProp v (js ''metaTitle'')) (sent (createProduct exDeps (exRequest (js ''en'')))) =
     Some (Str (js ''Milk coffee'')) \<and>
   resHeaders (updateProduct exDeps (exRequest (js ''en''))) = [] \<and>
   resHeaders (getProductBySlug exDeps (exRequest (js ''en''))) = [(js ''Vary'', js ''Accept-Language'')]"
proof -
  have v: "js ''vi'' \<noteq> []" and e: "js ''en'' \<noteq> []" by (simp_all add: js_def)
  have g: "statusCode (getProductBySlug exDeps (exRequest (js ''en''))) = 200"
    by (simp add: getProductBySlug_def Let_def exDeps_def exMilkCoffee_def json_def setHeader_def
        freshResponse_def)
  show ?thesis
    using getProductBySlug_headers [OF g]
    by (simp add: ex_create [OF v] ex_create [OF e] ex_title updateProduct_headers)
qed

text \<open>
  The same request for the locale \<open>en\<close>: the headers of the create response are not
  those of the read response.
\<close>

theorem createProduct_no_vary_witness:
  "resHeaders (createProduct exDeps (exRequest (js ''en''))) \<noteq>
   resHeaders (getProductBySlug exDeps (exRequest (js ''en'')))"
  using createProduct_no_vary by simp

end
